theory Spec2Isabelle
  imports Main
begin

section \<open>Values, identities and failures\<close>

text \<open>
  The two contracts \<^verbatim>\<open>RWAToken\<close> (the asset ledger) and \<^verbatim>\<open>PledgeManager\<close> (the pledge
  registry) are embedded as functions from a contract state to \<open>error + state\<close>.
  A \<^verbatim>\<open>uint256\<close> is a natural number; Solidity 0.8 checks every \<open>+\<close>, \<open>-\<close>, \<open>*\<close> and
  \<open>++\<close> and reverts with \<open>Panic\<close> when the result leaves the range, which the model writes
  out as a comparison with \<open>max_uint256\<close>; the arithmetic inside an \<^verbatim>\<open>unchecked\<close> block
  wraps around modulo \<open>2 ^ 256\<close>. An \<^verbatim>\<open>address\<close> is a natural number, \<open>0\<close> being
  \<^verbatim>\<open>address(0)\<close>. A \<^verbatim>\<open>mapping\<close> is a total function: a key never written reads as the
  zero value of its type.

  A failed \<^verbatim>\<open>require\<close> is \<open>Revert\<close> with the message of the source; the revert of
  \<^verbatim>\<open>onlyRole\<close> is \<open>MissingRole\<close> with the account and the role. A call that returns
  \<open>Inl\<close> has reverted: the execution environment discards every effect of the
  transaction, so the state after it is the state before it.
\<close>

type_synonym address = nat

definition max_uint256 :: nat where
  "max_uint256 = 2 ^ 256 - 1"

text \<open>Addition and subtraction inside an \<^verbatim>\<open>unchecked\<close> block.\<close>

definition unchecked_add :: "nat \<Rightarrow> nat \<Rightarrow> nat" where
  "unchecked_add a b = (a + b) mod (max_uint256 + 1)"

definition unchecked_sub :: "nat \<Rightarrow> nat \<Rightarrow> nat" where
  "unchecked_sub a b = (a + (max_uint256 + 1) - b) mod (max_uint256 + 1)"

datatype role =
    DEFAULT_ADMIN_ROLE
  | MINTER_ROLE
  | PAUSER_ROLE
  | PLEDGE_MANAGER_ROLE
  | OPERATOR_ROLE
  | FINANCE_ROLE

datatype error =
    Revert string
  | MissingRole address role
  | Panic

section \<open>The inherited library contracts\<close>

text \<open>
  \<^verbatim>\<open>ERC20\<close>, \<^verbatim>\<open>AccessControl\<close> and \<^verbatim>\<open>Pausable\<close> are imported from OpenZeppelin Contracts
  (the \<^verbatim>\<open>security/Pausable.sol\<close> layout of the 4.x line); their sources are not part of
  the repository, so they are written here after the 4.9 release of the library. The
  hook \<^verbatim>\<open>_beforeTokenTransfer\<close> is the one place where \<^verbatim>\<open>RWAToken\<close> overrides the
  library: it carries \<^verbatim>\<open>whenNotPaused\<close>. The functions below take the value of
  \<^verbatim>\<open>paused()\<close> as their first argument; \<^verbatim>\<open>MockUSDT\<close> does not override the hook and
  passes \<open>False\<close>.

  \<^verbatim>\<open>ReentrancyGuard\<close> is not modelled: no function of the three contracts calls back into
  its caller, so the guard's flag is clear whenever a function is entered.
\<close>

record erc20_state =
  balances :: "address \<Rightarrow> nat"
  allowances :: "address \<Rightarrow> address \<Rightarrow> nat"
  totalSupply :: nat

definition erc20_mint :: "bool \<Rightarrow> erc20_state \<Rightarrow> address \<Rightarrow> nat \<Rightarrow> error + erc20_state" where
  "erc20_mint isPaused s account amount =
     (if account = 0 then Inl (Revert ''ERC20: mint to the zero address'')
      else if isPaused then Inl (Revert ''Pausable: paused'')
      else if max_uint256 < totalSupply s + amount then Inl Panic
      else Inr (s\<lparr>totalSupply := totalSupply s + amount,
                  balances := (balances s)
                    (account := unchecked_add (balances s account) amount)\<rparr>))"

definition erc20_burn :: "bool \<Rightarrow> erc20_state \<Rightarrow> address \<Rightarrow> nat \<Rightarrow> error + erc20_state" where
  "erc20_burn isPaused s account amount =
     (if account = 0 then Inl (Revert ''ERC20: burn from the zero address'')
      else if isPaused then Inl (Revert ''Pausable: paused'')
      else if balances s account < amount then Inl (Revert ''ERC20: burn amount exceeds balance'')
      else Inr (s\<lparr>balances := (balances s)(account := balances s account - amount),
                  totalSupply := unchecked_sub (totalSupply s) amount\<rparr>))"

definition erc20_transfer_internal ::
    "bool \<Rightarrow> erc20_state \<Rightarrow> address \<Rightarrow> address \<Rightarrow> nat \<Rightarrow> error + erc20_state" where
  "erc20_transfer_internal isPaused s from to amount =
     (if from = 0 then Inl (Revert ''ERC20: transfer from the zero address'')
      else if to = 0 then Inl (Revert ''ERC20: transfer to the zero address'')
      else if isPaused then Inl (Revert ''Pausable: paused'')
      else if balances s from < amount then Inl (Revert ''ERC20: transfer amount exceeds balance'')
      else let b = (balances s)(from := balances s from - amount)
           in Inr (s\<lparr>balances := b(to := unchecked_add (b to) amount)\<rparr>))"

definition erc20_approve_internal ::
    "erc20_state \<Rightarrow> address \<Rightarrow> address \<Rightarrow> nat \<Rightarrow> error + erc20_state" where
  "erc20_approve_internal s owner spender amount =
     (if owner = 0 then Inl (Revert ''ERC20: approve from the zero address'')
      else if spender = 0 then Inl (Revert ''ERC20: approve to the zero address'')
      else Inr (s\<lparr>allowances := (allowances s)(owner := (allowances s owner)(spender := amount))\<rparr>))"

definition erc20_spendAllowance ::
    "erc20_state \<Rightarrow> address \<Rightarrow> address \<Rightarrow> nat \<Rightarrow> error + erc20_state" where
  "erc20_spendAllowance s owner spender amount =
     (let currentAllowance = allowances s owner spender
      in if currentAllowance \<noteq> max_uint256 then
           (if currentAllowance < amount then Inl (Revert ''ERC20: insufficient allowance'')
            else erc20_approve_internal s owner spender (currentAllowance - amount))
         else Inr s)"

text \<open>The external functions; \<open>sender\<close> is \<^verbatim>\<open>msg.sender\<close>.\<close>

definition erc20_transfer ::
    "bool \<Rightarrow> erc20_state \<Rightarrow> address \<Rightarrow> address \<Rightarrow> nat \<Rightarrow> error + erc20_state" where
  "erc20_transfer isPaused s sender to amount = erc20_transfer_internal isPaused s sender to amount"

definition erc20_approve :: "erc20_state \<Rightarrow> address \<Rightarrow> address \<Rightarrow> nat \<Rightarrow> error + erc20_state" where
  "erc20_approve s sender spender amount = erc20_approve_internal s sender spender amount"

definition erc20_transferFrom ::
    "bool \<Rightarrow> erc20_state \<Rightarrow> address \<Rightarrow> address \<Rightarrow> address \<Rightarrow> nat \<Rightarrow> error + erc20_state" where
  "erc20_transferFrom isPaused s sender from to amount =
     (case erc20_spendAllowance s from sender amount of
        Inl e \<Rightarrow> Inl e
      | Inr s1 \<Rightarrow> erc20_transfer_internal isPaused s1 from to amount)"

definition erc20_increaseAllowance ::
    "erc20_state \<Rightarrow> address \<Rightarrow> address \<Rightarrow> nat \<Rightarrow> error + erc20_state" where
  "erc20_increaseAllowance s sender spender addedValue =
     (if max_uint256 < allowances s sender spender + addedValue then Inl Panic
      else erc20_approve_internal s sender spender (allowances s sender spender + addedValue))"

definition erc20_decreaseAllowance ::
    "erc20_state \<Rightarrow> address \<Rightarrow> address \<Rightarrow> nat \<Rightarrow> error + erc20_state" where
  "erc20_decreaseAllowance s sender spender subtractedValue =
     (if allowances s sender spender < subtractedValue
      then Inl (Revert ''ERC20: decreased allowance below zero'')
      else erc20_approve_internal s sender spender (allowances s sender spender - subtractedValue))"

section \<open>RWAToken: the asset ledger\<close>

record AssetInfo =
  assetType :: string
  description :: string
  originalValue :: nat
  pledgedValue :: nat
  assetId :: string
  pledger :: address
  pledgeTimestamp :: nat
  isActive :: bool

text \<open>The zero value of the struct, read from \<^verbatim>\<open>assets\<close> at a key never written.\<close>

definition AssetInfo_zero :: AssetInfo where
  "AssetInfo_zero = \<lparr>assetType = [], description = [], originalValue = 0, pledgedValue = 0,
     assetId = [], pledger = 0, pledgeTimestamp = 0, isActive = False\<rparr>"

text \<open>
  The events the contract declares itself. The log is kept in the state because the
  history of issues and redemptions is recorded nowhere else; the events of the
  library contracts (\<^verbatim>\<open>Transfer\<close>, \<^verbatim>\<open>Approval\<close>, \<^verbatim>\<open>Paused\<close>, \<^verbatim>\<open>RoleGranted\<close>, ...) are
  left out.
\<close>

datatype token_event =
    AssetPledged nat string address string nat nat nat
      \<comment> \<open>tokenId, assetId, pledger, assetType, originalValue, pledgedValue, tokensIssued\<close>
  | AssetReleased nat string address nat
      \<comment> \<open>tokenId, assetId, pledger, tokensRedeemed\<close>
  | DiscountRateUpdated nat nat
      \<comment> \<open>oldRate, newRate\<close>

record RWAToken =
  erc20 :: erc20_state
  roles :: "role \<Rightarrow> address \<Rightarrow> bool"
  paused :: bool
  assets :: "nat \<Rightarrow> AssetInfo"
  assetIdToTokenId :: "string \<Rightarrow> nat"
  currentTokenId :: nat
  totalPledgedValue :: nat
  discountRate :: nat
  events :: "token_event list"

definition RWAToken_constructor :: "address \<Rightarrow> RWAToken" where
  "RWAToken_constructor admin =
     \<lparr>erc20 = \<lparr>balances = (\<lambda>_. 0), allowances = (\<lambda>_ _. 0), totalSupply = 0\<rparr>,
      roles = (\<lambda>r a. a = admin \<and>
                 r \<in> {DEFAULT_ADMIN_ROLE, MINTER_ROLE, PAUSER_ROLE, PLEDGE_MANAGER_ROLE}),
      paused = False,
      assets = (\<lambda>_. AssetInfo_zero),
      assetIdToTokenId = (\<lambda>_. 0),
      currentTokenId = 1,
      totalPledgedValue = 0,
      discountRate = 70,
      events = []\<rparr>"

definition pledgeAsset ::
    "RWAToken \<Rightarrow> address \<Rightarrow> nat \<Rightarrow> string \<Rightarrow> string \<Rightarrow> string \<Rightarrow> nat \<Rightarrow> address
      \<Rightarrow> error + RWAToken" where
  "pledgeAsset s sender blockTimestamp aId aType descr origValue pldgr =
     (if \<not> roles s PLEDGE_MANAGER_ROLE sender then Inl (MissingRole sender PLEDGE_MANAGER_ROLE)
      else if paused s then Inl (Revert ''Pausable: paused'')
      else if \<not> length aId > 0 then Inl (Revert ''Asset ID cannot be empty'')
      else if \<not> assetIdToTokenId s aId = 0 then Inl (Revert ''Asset already pledged'')
      else if \<not> pldgr \<noteq> 0 then Inl (Revert ''Invalid pledger address'')
      else if \<not> origValue > 0 then Inl (Revert ''Asset value must be greater than 0'')
      else if max_uint256 < currentTokenId s + 1 then Inl Panic
      else if max_uint256 < origValue * discountRate s then Inl Panic
      else
        let tokenId = currentTokenId s;
            pledgedVal = (origValue * discountRate s) div 100
        in if max_uint256 < totalPledgedValue s + pledgedVal then Inl Panic
           else
             let tokensToIssue = pledgedVal div 10 ^ 18
             in case erc20_mint (paused s) (erc20 s) pldgr tokensToIssue of
                  Inl e \<Rightarrow> Inl e
                | Inr t \<Rightarrow>
                    Inr (s\<lparr>currentTokenId := currentTokenId s + 1,
                           assets := (assets s)(tokenId :=
                             \<lparr>assetType = aType, description = descr, originalValue = origValue,
                              pledgedValue = pledgedVal, assetId = aId, pledger = pldgr,
                              pledgeTimestamp = blockTimestamp, isActive = True\<rparr>),
                           assetIdToTokenId := (assetIdToTokenId s)(aId := tokenId),
                           totalPledgedValue := totalPledgedValue s + pledgedVal,
                           erc20 := t,
                           events := events s @
                             [AssetPledged tokenId aId pldgr aType origValue pledgedVal
                                tokensToIssue]\<rparr>))"

definition releaseAsset ::
    "RWAToken \<Rightarrow> address \<Rightarrow> string \<Rightarrow> address \<Rightarrow> nat \<Rightarrow> error + RWAToken" where
  "releaseAsset s sender aId tokenHolder tokensToRedeem =
     (if \<not> roles s PLEDGE_MANAGER_ROLE sender then Inl (MissingRole sender PLEDGE_MANAGER_ROLE)
      else if paused s then Inl (Revert ''Pausable: paused'')
      else
        let tokenId = assetIdToTokenId s aId
        in if \<not> tokenId \<noteq> 0 then Inl (Revert ''Asset not found'')
           else if \<not> isActive (assets s tokenId) then Inl (Revert ''Asset is not active'')
           else if \<not> balances (erc20 s) tokenHolder \<ge> tokensToRedeem
             then Inl (Revert ''Insufficient token balance'')
           else case erc20_burn (paused s) (erc20 s) tokenHolder tokensToRedeem of
                  Inl e \<Rightarrow> Inl e
                | Inr t \<Rightarrow>
                    let expectedTokens = pledgedValue (assets s tokenId) div 10 ^ 18;
                        ev = AssetReleased tokenId aId (pledger (assets s tokenId)) tokensToRedeem
                    in if tokensToRedeem \<ge> expectedTokens then
                         (if totalPledgedValue s < pledgedValue (assets s tokenId) then Inl Panic
                          else Inr (s\<lparr>erc20 := t,
                                      assets := (assets s)(tokenId :=
                                        (assets s tokenId)\<lparr>isActive := False\<rparr>),
                                      totalPledgedValue :=
                                        totalPledgedValue s - pledgedValue (assets s tokenId),
                                      events := events s @ [ev]\<rparr>))
                       else Inr (s\<lparr>erc20 := t, events := events s @ [ev]\<rparr>))"

definition setDiscountRate :: "RWAToken \<Rightarrow> address \<Rightarrow> nat \<Rightarrow> error + RWAToken" where
  "setDiscountRate s sender newRate =
     (if \<not> roles s DEFAULT_ADMIN_ROLE sender then Inl (MissingRole sender DEFAULT_ADMIN_ROLE)
      else if \<not> (newRate > 0 \<and> newRate \<le> 100) then Inl (Revert ''Invalid discount rate'')
      else Inr (s\<lparr>discountRate := newRate,
                  events := events s @ [DiscountRateUpdated (discountRate s) newRate]\<rparr>))"

definition pause :: "RWAToken \<Rightarrow> address \<Rightarrow> error + RWAToken" where
  "pause s sender =
     (if \<not> roles s PAUSER_ROLE sender then Inl (MissingRole sender PAUSER_ROLE)
      else if paused s then Inl (Revert ''Pausable: paused'')
      else Inr (s\<lparr>paused := True\<rparr>))"

definition unpause :: "RWAToken \<Rightarrow> address \<Rightarrow> error + RWAToken" where
  "unpause s sender =
     (if \<not> roles s PAUSER_ROLE sender then Inl (MissingRole sender PAUSER_ROLE)
      else if \<not> paused s then Inl (Revert ''Pausable: not paused'')
      else Inr (s\<lparr>paused := False\<rparr>))"

text \<open>
  The inherited external functions of \<^verbatim>\<open>ERC20\<close> and \<^verbatim>\<open>AccessControl\<close>, as \<^verbatim>\<open>RWAToken\<close>
  exposes them. No \<^verbatim>\<open>_setRoleAdmin\<close> is ever called, so the admin role of every role is
  \<^verbatim>\<open>DEFAULT_ADMIN_ROLE\<close>.
\<close>

definition transfer :: "RWAToken \<Rightarrow> address \<Rightarrow> address \<Rightarrow> nat \<Rightarrow> error + RWAToken" where
  "transfer s sender to amount =
     (case erc20_transfer (paused s) (erc20 s) sender to amount of
        Inl e \<Rightarrow> Inl e | Inr t \<Rightarrow> Inr (s\<lparr>erc20 := t\<rparr>))"

definition transferFrom ::
    "RWAToken \<Rightarrow> address \<Rightarrow> address \<Rightarrow> address \<Rightarrow> nat \<Rightarrow> error + RWAToken" where
  "transferFrom s sender from to amount =
     (case erc20_transferFrom (paused s) (erc20 s) sender from to amount of
        Inl e \<Rightarrow> Inl e | Inr t \<Rightarrow> Inr (s\<lparr>erc20 := t\<rparr>))"

definition approve :: "RWAToken \<Rightarrow> address \<Rightarrow> address \<Rightarrow> nat \<Rightarrow> error + RWAToken" where
  "approve s sender spender amount =
     (case erc20_approve (erc20 s) sender spender amount of
        Inl e \<Rightarrow> Inl e | Inr t \<Rightarrow> Inr (s\<lparr>erc20 := t\<rparr>))"

definition increaseAllowance :: "RWAToken \<Rightarrow> address \<Rightarrow> address \<Rightarrow> nat \<Rightarrow> error + RWAToken" where
  "increaseAllowance s sender spender addedValue =
     (case erc20_increaseAllowance (erc20 s) sender spender addedValue of
        Inl e \<Rightarrow> Inl e | Inr t \<Rightarrow> Inr (s\<lparr>erc20 := t\<rparr>))"

definition decreaseAllowance :: "RWAToken \<Rightarrow> address \<Rightarrow> address \<Rightarrow> nat \<Rightarrow> error + RWAToken" where
  "decreaseAllowance s sender spender subtractedValue =
     (case erc20_decreaseAllowance (erc20 s) sender spender subtractedValue of
        Inl e \<Rightarrow> Inl e | Inr t \<Rightarrow> Inr (s\<lparr>erc20 := t\<rparr>))"

definition grantRole :: "RWAToken \<Rightarrow> address \<Rightarrow> role \<Rightarrow> address \<Rightarrow> error + RWAToken" where
  "grantRole s sender r account =
     (if \<not> roles s DEFAULT_ADMIN_ROLE sender then Inl (MissingRole sender DEFAULT_ADMIN_ROLE)
      else Inr (s\<lparr>roles := (roles s)(r := (roles s r)(account := True))\<rparr>))"

definition revokeRole :: "RWAToken \<Rightarrow> address \<Rightarrow> role \<Rightarrow> address \<Rightarrow> error + RWAToken" where
  "revokeRole s sender r account =
     (if \<not> roles s DEFAULT_ADMIN_ROLE sender then Inl (MissingRole sender DEFAULT_ADMIN_ROLE)
      else Inr (s\<lparr>roles := (roles s)(r := (roles s r)(account := False))\<rparr>))"

definition renounceRole :: "RWAToken \<Rightarrow> address \<Rightarrow> role \<Rightarrow> address \<Rightarrow> error + RWAToken" where
  "renounceRole s sender r account =
     (if \<not> account = sender then Inl (Revert ''AccessControl: can only renounce roles for self'')
      else Inr (s\<lparr>roles := (roles s)(r := (roles s r)(account := False))\<rparr>))"

section \<open>PledgeManager: the pledge registry\<close>

text \<open>
  The fields of \<^verbatim>\<open>PledgeAgreement\<close> and \<^verbatim>\<open>InvestorPurchase\<close> whose names \<^verbatim>\<open>AssetInfo\<close>
  or each other already use carry a suffix.
\<close>

datatype PledgeStatus = PENDING | ACTIVE | REPAID | DEFAULTED | RELEASED

record PledgeAgreement =
  agreementId :: string
  client :: address
  assetId_p :: string
  assetType_p :: string
  description_p :: string
  originalValue_p :: nat
  discountedValue :: nat
  tokensIssued :: nat
  clientPayment :: nat
  timestamp :: nat
  status :: PledgeStatus
  documentHash :: string

definition PledgeAgreement_zero :: PledgeAgreement where
  "PledgeAgreement_zero = \<lparr>agreementId = [], client = 0, assetId_p = [], assetType_p = [],
     description_p = [], originalValue_p = 0, discountedValue = 0, tokensIssued = 0,
     clientPayment = 0, timestamp = 0, status = PENDING, documentHash = []\<rparr>"

record InvestorPurchase =
  investor :: address
  tokenAmount :: nat
  usdtPaid :: nat
  timestamp_i :: nat
  purchaseId :: string

datatype manager_event =
    PledgeCreated string address string nat nat nat
      \<comment> \<open>agreementId, client, assetId, originalValue, discountedValue, clientPayment\<close>
  | TokensPurchased string address nat nat string
      \<comment> \<open>agreementId, investor, tokenAmount, usdtPaid, purchaseId\<close>
  | PledgeRepaid string address nat
      \<comment> \<open>agreementId, client, repaymentAmount\<close>
  | ClientPaid string address nat
      \<comment> \<open>agreementId, client, amount\<close>
  | SpreadUpdated nat nat
      \<comment> \<open>oldSpread, newSpread\<close>

record PledgeManager =
  roles_pm :: "role \<Rightarrow> address \<Rightarrow> bool"
  paused_pm :: bool
  pledgeAgreements :: "string \<Rightarrow> PledgeAgreement"
  assetInvestors :: "string \<Rightarrow> InvestorPurchase list"
  clientPledges :: "address \<Rightarrow> string list"
  investorPurchases :: "address \<Rightarrow> string list"
  totalClientPayments :: nat
  totalInvestorPayments :: nat
  platformRevenue :: nat
  spreadPercentage :: nat
  events_pm :: "manager_event list"

text \<open>
  The three contracts of a deployment. \<open>rwaToken\<close> and \<open>usdtToken\<close> are the states of the
  contracts the manager's fields of these names point to (the stable asset is
  \<^verbatim>\<open>MockUSDT\<close>, an \<^verbatim>\<open>ERC20\<close> without a hook); \<open>managerAddress\<close> is \<^verbatim>\<open>address(this)\<close> of the
  manager, the \<^verbatim>\<open>msg.sender\<close> of every call it makes.
\<close>

record world =
  rwaToken :: RWAToken
  usdtToken :: erc20_state
  manager :: PledgeManager
  managerAddress :: address

definition PledgeManager_initial :: "address \<Rightarrow> address \<Rightarrow> PledgeManager" where
  "PledgeManager_initial sender admin =
     \<lparr>roles_pm = (\<lambda>r a. (a = admin \<or> a = sender) \<and>
        r \<in> {DEFAULT_ADMIN_ROLE, OPERATOR_ROLE, FINANCE_ROLE}),
      paused_pm = False,
      pledgeAgreements = (\<lambda>_. PledgeAgreement_zero),
      assetInvestors = (\<lambda>_. []),
      clientPledges = (\<lambda>_. []),
      investorPurchases = (\<lambda>_. []),
      totalClientPayments = 0,
      totalInvestorPayments = 0,
      platformRevenue = 0,
      spreadPercentage = 15,
      events_pm = []\<rparr>"

definition PledgeManager_constructor ::
    "address \<Rightarrow> address \<Rightarrow> address \<Rightarrow> address \<Rightarrow> error + PledgeManager" where
  "PledgeManager_constructor sender rwaTokenAddr usdtTokenAddr admin =
     (if \<not> rwaTokenAddr \<noteq> 0 then Inl (Revert ''Invalid RWA token address'')
      else if \<not> usdtTokenAddr \<noteq> 0 then Inl (Revert ''Invalid USDT token address'')
      else if \<not> admin \<noteq> 0 then Inl (Revert ''Invalid admin address'')
      else Inr (PledgeManager_initial sender admin))"

definition createPledge ::
    "world \<Rightarrow> address \<Rightarrow> nat \<Rightarrow> string \<Rightarrow> address \<Rightarrow> string \<Rightarrow> string \<Rightarrow> string \<Rightarrow> nat \<Rightarrow> string
      \<Rightarrow> error + world" where
  "createPledge w sender blockTimestamp agrId clnt aId aType descr origValue docHash =
     (let m = manager w
      in if \<not> roles_pm m OPERATOR_ROLE sender then Inl (MissingRole sender OPERATOR_ROLE)
      else if paused_pm m then Inl (Revert ''Pausable: paused'')
      else if \<not> length agrId > 0 then Inl (Revert ''Agreement ID cannot be empty'')
      else if \<not> clnt \<noteq> 0 then Inl (Revert ''Invalid client address'')
      else if \<not> origValue > 0 then Inl (Revert ''Asset value must be greater than 0'')
      else if \<not> timestamp (pledgeAgreements m agrId) = 0
        then Inl (Revert ''Agreement already exists'')
      else
        let rate = discountRate (rwaToken w)
        in if max_uint256 < origValue * rate then Inl Panic
        else
          let discountedVal = (origValue * rate) div 100
          in if 100 < spreadPercentage m then Inl Panic
          else if max_uint256 < discountedVal * (100 - spreadPercentage m) then Inl Panic
          else
            let clientPay = (discountedVal * (100 - spreadPercentage m)) div 100;
                m1 = m\<lparr>pledgeAgreements := (pledgeAgreements m)(agrId :=
                          \<lparr>agreementId = agrId, client = clnt, assetId_p = aId,
                           assetType_p = aType, description_p = descr,
                           originalValue_p = origValue, discountedValue = discountedVal,
                           tokensIssued = discountedVal div 10 ^ 18, clientPayment = clientPay,
                           timestamp = blockTimestamp, status = PENDING,
                           documentHash = docHash\<rparr>),
                       clientPledges := (clientPledges m)(clnt := clientPledges m clnt @ [agrId])\<rparr>
            in case pledgeAsset (rwaToken w) (managerAddress w) blockTimestamp aId aType descr
                      origValue (managerAddress w) of
                 Inl e \<Rightarrow> Inl e
               | Inr t \<Rightarrow>
                   Inr (w\<lparr>rwaToken := t,
                          manager := m1\<lparr>pledgeAgreements := (pledgeAgreements m1)(agrId :=
                                          (pledgeAgreements m1 agrId)\<lparr>status := ACTIVE\<rparr>),
                                        events_pm := events_pm m1 @
                                          [PledgeCreated agrId clnt aId origValue discountedVal
                                             clientPay]\<rparr>\<rparr>))"

text \<open>
  \<^verbatim>\<open>require(usdtToken.transfer(...), "USDT transfer failed")\<close>: the \<^verbatim>\<open>ERC20\<close> of the library
  returns \<open>true\<close> whenever it does not revert, so the message of this \<^verbatim>\<open>require\<close> is never
  the one raised; the revert of the token is passed on. The same holds for
  \<^verbatim>\<open>transferFrom\<close> and for \<^verbatim>\<open>rwaToken.transfer\<close>.
\<close>

definition payClient :: "world \<Rightarrow> address \<Rightarrow> string \<Rightarrow> error + world" where
  "payClient w sender agrId =
     (let m = manager w; pledge = pledgeAgreements m agrId
      in if \<not> roles_pm m FINANCE_ROLE sender then Inl (MissingRole sender FINANCE_ROLE)
      else if \<not> timestamp pledge \<noteq> 0 then Inl (Revert ''Pledge not found'')
      else if \<not> status pledge = ACTIVE then Inl (Revert ''Pledge not active'')
      else
        let paymentAmount = clientPayment pledge
        in if \<not> balances (usdtToken w) (managerAddress w) \<ge> paymentAmount
          then Inl (Revert ''Insufficient USDT balance'')
        else case erc20_transfer False (usdtToken w) (managerAddress w) (client pledge)
                    paymentAmount of
               Inl e \<Rightarrow> Inl e
             | Inr u \<Rightarrow>
                 if max_uint256 < totalClientPayments m + paymentAmount then Inl Panic
                 else Inr (w\<lparr>usdtToken := u,
                             manager := m\<lparr>totalClientPayments :=
                                            totalClientPayments m + paymentAmount,
                                          events_pm := events_pm m @
                                            [ClientPaid agrId (client pledge) paymentAmount]\<rparr>\<rparr>))"

definition purchaseTokens ::
    "world \<Rightarrow> address \<Rightarrow> nat \<Rightarrow> string \<Rightarrow> nat \<Rightarrow> string \<Rightarrow> error + world" where
  "purchaseTokens w sender blockTimestamp agrId tokenAmt purchId =
     (let m = manager w; pledge = pledgeAgreements m agrId
      in if paused_pm m then Inl (Revert ''Pausable: paused'')
      else if \<not> timestamp pledge \<noteq> 0 then Inl (Revert ''Pledge not found'')
      else if \<not> status pledge = ACTIVE then Inl (Revert ''Pledge not active'')
      else if \<not> tokenAmt > 0 then Inl (Revert ''Token amount must be greater than 0'')
      else
        let availableTokens = balances (erc20 (rwaToken w)) (managerAddress w)
        in if \<not> availableTokens \<ge> tokenAmt then Inl (Revert ''Insufficient tokens available'')
        else if max_uint256 < tokenAmt * 10 ^ 6 then Inl Panic
        else
          let usdtRequired = tokenAmt * 10 ^ 6
          in case erc20_transferFrom False (usdtToken w) (managerAddress w) sender
                    (managerAddress w) usdtRequired of
               Inl e \<Rightarrow> Inl e
             | Inr u \<Rightarrow>
                (case transfer (rwaToken w) (managerAddress w) sender tokenAmt of
                   Inl e \<Rightarrow> Inl e
                 | Inr t \<Rightarrow>
                     let purchase = \<lparr>investor = sender, tokenAmount = tokenAmt,
                                      usdtPaid = usdtRequired, timestamp_i = blockTimestamp,
                                      purchaseId = purchId\<rparr>
                     in if max_uint256 < totalInvestorPayments m + usdtRequired then Inl Panic
                     else if max_uint256 < usdtRequired * spreadPercentage m then Inl Panic
                     else if max_uint256 <
                               platformRevenue m + (usdtRequired * spreadPercentage m) div 100
                       then Inl Panic
                     else Inr (w\<lparr>usdtToken := u, rwaToken := t,
                                 manager := m\<lparr>
                                   assetInvestors := (assetInvestors m)(agrId :=
                                     assetInvestors m agrId @ [purchase]),
                                   investorPurchases := (investorPurchases m)(sender :=
                                     investorPurchases m sender @ [agrId]),
                                   totalInvestorPayments := totalInvestorPayments m + usdtRequired,
                                   platformRevenue := platformRevenue m +
                                     (usdtRequired * spreadPercentage m) div 100,
                                   events_pm := events_pm m @
                                     [TokensPurchased agrId sender tokenAmt usdtRequired
                                        purchId]\<rparr>\<rparr>)))"

definition repayPledge :: "world \<Rightarrow> address \<Rightarrow> string \<Rightarrow> nat \<Rightarrow> error + world" where
  "repayPledge w sender agrId repaymentAmount =
     (let m = manager w; pledge = pledgeAgreements m agrId
      in if \<not> roles_pm m FINANCE_ROLE sender then Inl (MissingRole sender FINANCE_ROLE)
      else if \<not> timestamp pledge \<noteq> 0 then Inl (Revert ''Pledge not found'')
      else if \<not> status pledge = ACTIVE then Inl (Revert ''Pledge not active'')
      else case erc20_transferFrom False (usdtToken w) (managerAddress w) (client pledge)
                  (managerAddress w) repaymentAmount of
             Inl e \<Rightarrow> Inl e
           | Inr u \<Rightarrow>
              (let tokensToRedeem = tokensIssued pledge
               in case releaseAsset (rwaToken w) (managerAddress w) (assetId_p pledge)
                         (managerAddress w) tokensToRedeem of
                    Inl e \<Rightarrow> Inl e
                  | Inr t \<Rightarrow>
                      Inr (w\<lparr>usdtToken := u, rwaToken := t,
                             manager := m\<lparr>
                               pledgeAgreements := (pledgeAgreements m)(agrId :=
                                 pledge\<lparr>status := REPAID\<rparr>),
                               events_pm := events_pm m @
                                 [PledgeRepaid agrId (client pledge) repaymentAmount]\<rparr>\<rparr>)))"

definition setSpreadPercentage :: "world \<Rightarrow> address \<Rightarrow> nat \<Rightarrow> error + world" where
  "setSpreadPercentage w sender newSpread =
     (let m = manager w
      in if \<not> roles_pm m DEFAULT_ADMIN_ROLE sender then Inl (MissingRole sender DEFAULT_ADMIN_ROLE)
      else if \<not> newSpread \<le> 50 then Inl (Revert ''Spread cannot exceed 50%'')
      else Inr (w\<lparr>manager := m\<lparr>spreadPercentage := newSpread,
                                events_pm := events_pm m @
                                  [SpreadUpdated (spreadPercentage m) newSpread]\<rparr>\<rparr>))"

definition withdrawRevenue :: "world \<Rightarrow> address \<Rightarrow> address \<Rightarrow> nat \<Rightarrow> error + world" where
  "withdrawRevenue w sender to amount =
     (let m = manager w
      in if \<not> roles_pm m FINANCE_ROLE sender then Inl (MissingRole sender FINANCE_ROLE)
      else if \<not> to \<noteq> 0 then Inl (Revert ''Invalid address'')
      else if \<not> amount \<le> platformRevenue m then Inl (Revert ''Amount exceeds available revenue'')
      else case erc20_transfer False (usdtToken w) (managerAddress w) to amount of
             Inl e \<Rightarrow> Inl e
           | Inr u \<Rightarrow>
               Inr (w\<lparr>usdtToken := u,
                      manager := m\<lparr>platformRevenue := platformRevenue m - amount\<rparr>\<rparr>))"

definition pause_pm :: "world \<Rightarrow> address \<Rightarrow> error + world" where
  "pause_pm w sender =
     (let m = manager w
      in if \<not> roles_pm m DEFAULT_ADMIN_ROLE sender then Inl (MissingRole sender DEFAULT_ADMIN_ROLE)
      else if paused_pm m then Inl (Revert ''Pausable: paused'')
      else Inr (w\<lparr>manager := m\<lparr>paused_pm := True\<rparr>\<rparr>))"

definition unpause_pm :: "world \<Rightarrow> address \<Rightarrow> error + world" where
  "unpause_pm w sender =
     (let m = manager w
      in if \<not> roles_pm m DEFAULT_ADMIN_ROLE sender then Inl (MissingRole sender DEFAULT_ADMIN_ROLE)
      else if \<not> paused_pm m then Inl (Revert ''Pausable: not paused'')
      else Inr (w\<lparr>manager := m\<lparr>paused_pm := False\<rparr>\<rparr>))"

text \<open>
  \<^verbatim>\<open>grantRole\<close> and \<^verbatim>\<open>revokeRole\<close> of \<^verbatim>\<open>AccessControl\<close> on the manager, and the four
  wrappers: each wrapper is \<^verbatim>\<open>onlyRole(DEFAULT_ADMIN_ROLE)\<close> and then calls the inherited
  function, which checks the admin role of the role again.
\<close>

definition grantRole_pm :: "world \<Rightarrow> address \<Rightarrow> role \<Rightarrow> address \<Rightarrow> error + world" where
  "grantRole_pm w sender r account =
     (let m = manager w
      in if \<not> roles_pm m DEFAULT_ADMIN_ROLE sender then Inl (MissingRole sender DEFAULT_ADMIN_ROLE)
      else Inr (w\<lparr>manager := m\<lparr>roles_pm := (roles_pm m)(r := (roles_pm m r)(account := True))\<rparr>\<rparr>))"

definition revokeRole_pm :: "world \<Rightarrow> address \<Rightarrow> role \<Rightarrow> address \<Rightarrow> error + world" where
  "revokeRole_pm w sender r account =
     (let m = manager w
      in if \<not> roles_pm m DEFAULT_ADMIN_ROLE sender then Inl (MissingRole sender DEFAULT_ADMIN_ROLE)
      else Inr (w\<lparr>manager := m\<lparr>roles_pm := (roles_pm m)(r := (roles_pm m r)(account := False))\<rparr>\<rparr>))"

definition grantOperatorRole :: "world \<Rightarrow> address \<Rightarrow> address \<Rightarrow> error + world" where
  "grantOperatorRole w sender account =
     (if \<not> roles_pm (manager w) DEFAULT_ADMIN_ROLE sender
      then Inl (MissingRole sender DEFAULT_ADMIN_ROLE)
      else grantRole_pm w sender OPERATOR_ROLE account)"

definition grantFinanceRole :: "world \<Rightarrow> address \<Rightarrow> address \<Rightarrow> error + world" where
  "grantFinanceRole w sender account =
     (if \<not> roles_pm (manager w) DEFAULT_ADMIN_ROLE sender
      then Inl (MissingRole sender DEFAULT_ADMIN_ROLE)
      else grantRole_pm w sender FINANCE_ROLE account)"

definition revokeOperatorRole :: "world \<Rightarrow> address \<Rightarrow> address \<Rightarrow> error + world" where
  "revokeOperatorRole w sender account =
     (if \<not> roles_pm (manager w) DEFAULT_ADMIN_ROLE sender
      then Inl (MissingRole sender DEFAULT_ADMIN_ROLE)
      else revokeRole_pm w sender OPERATOR_ROLE account)"

definition revokeFinanceRole :: "world \<Rightarrow> address \<Rightarrow> address \<Rightarrow> error + world" where
  "revokeFinanceRole w sender account =
     (if \<not> roles_pm (manager w) DEFAULT_ADMIN_ROLE sender
      then Inl (MissingRole sender DEFAULT_ADMIN_ROLE)
      else revokeRole_pm w sender FINANCE_ROLE account)"

definition renounceRole_pm :: "world \<Rightarrow> address \<Rightarrow> role \<Rightarrow> address \<Rightarrow> error + world" where
  "renounceRole_pm w sender r account =
     (let m = manager w
      in if \<not> account = sender
        then Inl (Revert ''AccessControl: can only renounce roles for self'')
      else Inr (w\<lparr>manager := m\<lparr>roles_pm := (roles_pm m)(r := (roles_pm m r)(account := False))\<rparr>\<rparr>))"

section \<open>Sequences of ledger operations\<close>

text \<open>
  Every state-changing external function of \<^verbatim>\<open>RWAToken\<close>, its own and the inherited ones,
  as one call. A state of the ledger is reachable when a sequence of successful calls,
  by any senders at any block times, leads to it from a freshly constructed contract;
  a reverted call leaves the state where it was and so adds no state.
\<close>

datatype token_call =
    PledgeAsset string string string nat address
  | ReleaseAsset string address nat
  | SetDiscountRate nat
  | Pause
  | Unpause
  | Transfer address nat
  | TransferFrom address address nat
  | Approve address nat
  | IncreaseAllowance address nat
  | DecreaseAllowance address nat
  | GrantRole role address
  | RevokeRole role address
  | RenounceRole role address

fun token_exec :: "RWAToken \<Rightarrow> address \<Rightarrow> nat \<Rightarrow> token_call \<Rightarrow> error + RWAToken" where
  "token_exec s sender ts (PledgeAsset aId aType descr origValue pldgr) =
     pledgeAsset s sender ts aId aType descr origValue pldgr"
| "token_exec s sender ts (ReleaseAsset aId tokenHolder tokensToRedeem) =
     releaseAsset s sender aId tokenHolder tokensToRedeem"
| "token_exec s sender ts (SetDiscountRate newRate) = setDiscountRate s sender newRate"
| "token_exec s sender ts Pause = pause s sender"
| "token_exec s sender ts Unpause = unpause s sender"
| "token_exec s sender ts (Transfer to amount) = transfer s sender to amount"
| "token_exec s sender ts (TransferFrom from to amount) = transferFrom s sender from to amount"
| "token_exec s sender ts (Approve spender amount) = approve s sender spender amount"
| "token_exec s sender ts (IncreaseAllowance spender v) = increaseAllowance s sender spender v"
| "token_exec s sender ts (DecreaseAllowance spender v) = decreaseAllowance s sender spender v"
| "token_exec s sender ts (GrantRole r account) = grantRole s sender r account"
| "token_exec s sender ts (RevokeRole r account) = revokeRole s sender r account"
| "token_exec s sender ts (RenounceRole r account) = renounceRole s sender r account"

inductive token_reachable :: "RWAToken \<Rightarrow> bool" where
  constructed: "token_reachable (RWAToken_constructor admin)"
| called: "token_reachable s \<Longrightarrow> token_exec s sender ts c = Inr s' \<Longrightarrow> token_reachable s'"

text \<open>
  The state a transaction leaves behind: the new state when the call returns, the old
  one when it reverts.
\<close>

definition token_after :: "RWAToken \<Rightarrow> address \<Rightarrow> nat \<Rightarrow> token_call \<Rightarrow> RWAToken" where
  "token_after s sender ts c = (case token_exec s sender ts c of Inl e \<Rightarrow> s | Inr s' \<Rightarrow> s')"

subsection \<open>Quantities read off the ledger\<close>

text \<open>
  The sum of all balance entries; the tokens issued for an asset record, which is what
  \<^verbatim>\<open>pledgeAsset\<close> minted for it and what \<^verbatim>\<open>releaseAsset\<close> recomputes as
  \<^verbatim>\<open>expectedTokens\<close>; and the tokens redeemed against it so far, which the contract
  stores nowhere but reports in its \<^verbatim>\<open>AssetReleased\<close> events.
\<close>

definition sum_balances :: "(address \<Rightarrow> nat) \<Rightarrow> nat" where
  "sum_balances b = (\<Sum>a | b a \<noteq> 0. b a)"

definition tokensIssuedFor :: "RWAToken \<Rightarrow> nat \<Rightarrow> nat" where
  "tokensIssuedFor s tokenId = pledgedValue (assets s tokenId) div 10 ^ 18"

fun redeemed_by :: "nat \<Rightarrow> token_event \<Rightarrow> nat" where
  "redeemed_by tokenId (AssetReleased t aId pldgr n) = (if t = tokenId then n else 0)"
| "redeemed_by tokenId (AssetPledged t aId pldgr aType v pv n) = 0"
| "redeemed_by tokenId (DiscountRateUpdated old new) = 0"

definition tokensRedeemed :: "RWAToken \<Rightarrow> nat \<Rightarrow> nat" where
  "tokensRedeemed s tokenId = sum_list (map (redeemed_by tokenId) (events s))"

text \<open>Well-formedness of a ledger state; every reachable state has it.\<close>

definition erc20_ok :: "erc20_state \<Rightarrow> bool" where
  "erc20_ok e \<longleftrightarrow>
     finite {a. balances e a \<noteq> 0} \<and> sum_balances (balances e) = totalSupply e \<and>
     totalSupply e \<le> max_uint256"

definition token_inv :: "RWAToken \<Rightarrow> bool" where
  "token_inv s \<longleftrightarrow>
     erc20_ok (erc20 s) \<and>
     1 \<le> currentTokenId s \<and>
     (\<forall>aId. assetIdToTokenId s aId < currentTokenId s) \<and>
     (\<forall>tokenId. currentTokenId s \<le> tokenId \<longrightarrow> tokensRedeemed s tokenId = 0) \<and>
     int (totalSupply (erc20 s)) =
       (\<Sum>tokenId = 1..<currentTokenId s.
          int (tokensIssuedFor s tokenId) - int (tokensRedeemed s tokenId))"

text \<open>
  A later state of the ledger: reached from an earlier one by zero or more successful
  calls.
\<close>

inductive token_reaches :: "RWAToken \<Rightarrow> RWAToken \<Rightarrow> bool" where
  here: "token_reaches s s"
| later: "token_reaches s s1 \<Longrightarrow> token_exec s1 sender ts c = Inr s2 \<Longrightarrow> token_reaches s s2"

section \<open>Transactions on the registry\<close>

datatype manager_call =
    CreatePledge string address string string string nat string
  | PayClient string
  | PurchaseTokens string nat string
  | RepayPledge string nat
  | SetSpreadPercentage nat
  | WithdrawRevenue address nat
  | ManagerPause
  | ManagerUnpause
  | ManagerGrantRole role address
  | ManagerRevokeRole role address
  | ManagerRenounceRole role address
  | GrantOperatorRole address
  | GrantFinanceRole address
  | RevokeOperatorRole address
  | RevokeFinanceRole address

fun manager_exec :: "world \<Rightarrow> address \<Rightarrow> nat \<Rightarrow> manager_call \<Rightarrow> error + world" where
  "manager_exec w sender ts (CreatePledge agrId clnt aId aType descr origValue docHash) =
     createPledge w sender ts agrId clnt aId aType descr origValue docHash"
| "manager_exec w sender ts (PayClient agrId) = payClient w sender agrId"
| "manager_exec w sender ts (PurchaseTokens agrId tokenAmt purchId) =
     purchaseTokens w sender ts agrId tokenAmt purchId"
| "manager_exec w sender ts (RepayPledge agrId repaymentAmount) =
     repayPledge w sender agrId repaymentAmount"
| "manager_exec w sender ts (SetSpreadPercentage newSpread) = setSpreadPercentage w sender newSpread"
| "manager_exec w sender ts (WithdrawRevenue to amount) = withdrawRevenue w sender to amount"
| "manager_exec w sender ts ManagerPause = pause_pm w sender"
| "manager_exec w sender ts ManagerUnpause = unpause_pm w sender"
| "manager_exec w sender ts (ManagerGrantRole r account) = grantRole_pm w sender r account"
| "manager_exec w sender ts (ManagerRevokeRole r account) = revokeRole_pm w sender r account"
| "manager_exec w sender ts (ManagerRenounceRole r account) = renounceRole_pm w sender r account"
| "manager_exec w sender ts (GrantOperatorRole account) = grantOperatorRole w sender account"
| "manager_exec w sender ts (GrantFinanceRole account) = grantFinanceRole w sender account"
| "manager_exec w sender ts (RevokeOperatorRole account) = revokeOperatorRole w sender account"
| "manager_exec w sender ts (RevokeFinanceRole account) = revokeFinanceRole w sender account"

definition manager_after :: "world \<Rightarrow> address \<Rightarrow> nat \<Rightarrow> manager_call \<Rightarrow> world" where
  "manager_after w sender ts c = (case manager_exec w sender ts c of Inl e \<Rightarrow> w | Inr w' \<Rightarrow> w')"

text \<open>
  A call made to the ledger directly, seen from the deployment: only the ledger's
  state moves.
\<close>

definition ledger_exec :: "world \<Rightarrow> address \<Rightarrow> nat \<Rightarrow> token_call \<Rightarrow> error + world" where
  "ledger_exec w sender ts c =
     (case token_exec (rwaToken w) sender ts c of
        Inl e \<Rightarrow> Inl e | Inr t \<Rightarrow> Inr (w\<lparr>rwaToken := t\<rparr>))"

definition ledger_after :: "world \<Rightarrow> address \<Rightarrow> nat \<Rightarrow> token_call \<Rightarrow> world" where
  "ledger_after w sender ts c = (case ledger_exec w sender ts c of Inl e \<Rightarrow> w | Inr w' \<Rightarrow> w')"

subsection \<open>The role each function demands\<close>

text \<open>
  The \<^verbatim>\<open>onlyRole\<close> modifier of each external function, \<open>None\<close> where the function
  has none. \<^verbatim>\<open>grantRole\<close> and \<^verbatim>\<open>revokeRole\<close> demand the admin role of the role they
  change, which is \<^verbatim>\<open>DEFAULT_ADMIN_ROLE\<close> throughout.
\<close>

fun token_role :: "token_call \<Rightarrow> role option" where
  "token_role (PledgeAsset aId aType descr origValue pldgr) = Some PLEDGE_MANAGER_ROLE"
| "token_role (ReleaseAsset aId tokenHolder tokensToRedeem) = Some PLEDGE_MANAGER_ROLE"
| "token_role (SetDiscountRate newRate) = Some DEFAULT_ADMIN_ROLE"
| "token_role Pause = Some PAUSER_ROLE"
| "token_role Unpause = Some PAUSER_ROLE"
| "token_role (GrantRole r account) = Some DEFAULT_ADMIN_ROLE"
| "token_role (RevokeRole r account) = Some DEFAULT_ADMIN_ROLE"
| "token_role (RenounceRole r account) = None"
| "token_role (Transfer to amount) = None"
| "token_role (TransferFrom from to amount) = None"
| "token_role (Approve spender amount) = None"
| "token_role (IncreaseAllowance spender v) = None"
| "token_role (DecreaseAllowance spender v) = None"

fun manager_role :: "manager_call \<Rightarrow> role option" where
  "manager_role (CreatePledge agrId clnt aId aType descr origValue docHash) = Some OPERATOR_ROLE"
| "manager_role (PayClient agrId) = Some FINANCE_ROLE"
| "manager_role (PurchaseTokens agrId tokenAmt purchId) = None"
| "manager_role (RepayPledge agrId repaymentAmount) = Some FINANCE_ROLE"
| "manager_role (SetSpreadPercentage newSpread) = Some DEFAULT_ADMIN_ROLE"
| "manager_role (WithdrawRevenue to amount) = Some FINANCE_ROLE"
| "manager_role ManagerPause = Some DEFAULT_ADMIN_ROLE"
| "manager_role ManagerUnpause = Some DEFAULT_ADMIN_ROLE"
| "manager_role (ManagerGrantRole r account) = Some DEFAULT_ADMIN_ROLE"
| "manager_role (ManagerRevokeRole r account) = Some DEFAULT_ADMIN_ROLE"
| "manager_role (ManagerRenounceRole r account) = None"
| "manager_role (GrantOperatorRole account) = Some DEFAULT_ADMIN_ROLE"
| "manager_role (GrantFinanceRole account) = Some DEFAULT_ADMIN_ROLE"
| "manager_role (RevokeOperatorRole account) = Some DEFAULT_ADMIN_ROLE"
| "manager_role (RevokeFinanceRole account) = Some DEFAULT_ADMIN_ROLE"

section \<open>A deployment to compute with\<close>

text \<open>
  The deployment script: account 1 deploys the ledger and the registry with itself as
  admin, the registry lives at address 2 and is granted \<^verbatim>\<open>PLEDGE_MANAGER_ROLE\<close> on the
  ledger, and is funded with 500,000 USDT. Account 3 is an investor holding 10,000 USDT
  who has approved the registry for all of it; account 4 is a client.
\<close>

definition demo_token :: RWAToken where
  "demo_token =
     token_after (RWAToken_constructor 1) 1 1700000000 (GrantRole PLEDGE_MANAGER_ROLE 2)"

definition demo_usdt :: erc20_state where
  "demo_usdt =
     \<lparr>balances = (\<lambda>a. if a = 2 then 500000 * 10 ^ 6 else if a = 3 then 10000 * 10 ^ 6 else 0),
      allowances = (\<lambda>owner spender. if owner = 3 \<and> spender = 2 then 10000 * 10 ^ 6 else 0),
      totalSupply = 510000 * 10 ^ 6\<rparr>"

definition demo_world :: world where
  "demo_world =
     \<lparr>rwaToken = demo_token, usdtToken = demo_usdt, manager = PledgeManager_initial 1 1,
      managerAddress = 2\<rparr>"

text \<open>
  The pledge of the specification's scenario, 100,000 at 18 decimals: made on a fresh
  ledger by its admin for account 5 and redeemed in full; followed by a second asset
  of 100, issued at 70 tokens, against which 1,000 tokens are redeemed; and made through
  the registry.
\<close>

definition demo_asset :: RWAToken where
  "demo_asset =
     token_after (RWAToken_constructor 1) 1 1700000100
       (PledgeAsset ''asset-1'' ''real_estate'' ''flat'' (100000 * 10 ^ 18) 5)"

definition demo_two_assets :: RWAToken where
  "demo_two_assets =
     token_after demo_asset 1 1700000150
       (PledgeAsset ''asset-2'' ''stocks'' ''shares'' (100 * 10 ^ 18) 5)"

definition demo_over_released :: RWAToken where
  "demo_over_released =
     token_after demo_two_assets 1 1700000200 (ReleaseAsset ''asset-2'' 5 1000)"

definition demo_released :: RWAToken where
  "demo_released = token_after demo_asset 1 1700000200 (ReleaseAsset ''asset-1'' 5 70000)"

definition demo_pledged :: world where
  "demo_pledged =
     manager_after demo_world 1 1700000100
       (CreatePledge ''AG-1'' 4 ''asset-1'' ''real_estate'' ''flat'' (100000 * 10 ^ 18) ''Qm'')"

text \<open>The admin raises the spread to 20 after the pledge.\<close>

definition demo_respread :: world where
  "demo_respread = manager_after demo_pledged 1 1700000200 (SetSpreadPercentage 20)"

text \<open>
  A pledge small enough for the registry's USDT to cover its client payment, which the
  contract computes at 18 decimals, and two payments of it.
\<close>

definition demo_small :: world where
  "demo_small =
     manager_after demo_world 1 1700000100
       (CreatePledge ''AG-2'' 4 ''asset-2'' ''stocks'' ''shares'' 1000 ''Qn'')"

definition demo_paid_once :: world where
  "demo_paid_once = manager_after demo_small 1 1700000200 (PayClient ''AG-2'')"

definition demo_paid_twice :: world where
  "demo_paid_twice = manager_after demo_paid_once 1 1700000300 (PayClient ''AG-2'')"

text \<open>
  Pauses. Account 5 approves account 6 for 500 of its tokens on the ledger holding
  the first asset, and the admin pauses that ledger; the registry is paused after the
  pledge; and the ledger of the deployment is paused after the pledge.
\<close>

definition demo_approved :: RWAToken where
  "demo_approved = token_after demo_asset 5 1700000150 (Approve 6 500)"

definition demo_approved_paused :: RWAToken where
  "demo_approved_paused = token_after demo_approved 1 1700000160 Pause"

definition demo_paused_pm :: world where
  "demo_paused_pm = manager_after demo_pledged 1 1700000150 ManagerPause"

definition demo_pledged_ledger_paused :: world where
  "demo_pledged_ledger_paused = ledger_after demo_pledged 1 1700000150 Pause"

text \<open>
  The investor buys 1,000 tokens of the pledge, and 500 more under the same purchase
  id.
\<close>

definition demo_bought :: world where
  "demo_bought =
     manager_after demo_pledged 3 1700000200 (PurchaseTokens ''AG-1'' 1000 ''P-1'')"


section \<open>Arithmetic and the balance sum\<close>

lemma sum_balances_upd:
  assumes "finite {a. b a \<noteq> 0}"
  shows "finite {a. (b(x := v)) a \<noteq> 0}" and "sum_balances (b(x := v)) + b x = sum_balances b + v"
proof -
  let ?S = "{a. b a \<noteq> 0}"
  let ?T = "insert x ?S"
  have fT: "finite ?T" using assms by simp
  have sub: "{a. (b(x := v)) a \<noteq> 0} \<subseteq> ?T" by auto
  show "finite {a. (b(x := v)) a \<noteq> 0}" by (rule finite_subset [OF sub fT])
  have 1: "sum_balances b = sum b ?T"
    unfolding sum_balances_def by (rule sum.mono_neutral_left [OF fT]) auto
  have 2: "sum_balances (b(x := v)) = sum (b(x := v)) ?T"
    unfolding sum_balances_def by (rule sum.mono_neutral_left [OF fT sub]) auto
  have xT: "x \<in> ?T" by simp
  have 3: "sum b ?T = b x + sum b (?T - {x})"
    by (rule sum.remove [OF fT xT])
  have "sum (b(x := v)) ?T = (b(x := v)) x + sum (b(x := v)) (?T - {x})"
    by (rule sum.remove [OF fT xT])
  then have 4: "sum (b(x := v)) ?T = v + sum (b(x := v)) (?T - {x})"
    by simp
  have 5: "sum (b(x := v)) (?T - {x}) = sum b (?T - {x})"
    by (rule sum.cong) auto
  show "sum_balances (b(x := v)) + b x = sum_balances b + v"
    using 1 2 3 4 5 by simp
qed

lemma balance_le_sum:
  assumes "finite {a. b a \<noteq> 0}"
  shows "b x \<le> sum_balances b"
proof (cases "b x = 0")
  case True then show ?thesis by simp
next
  case False
  then have "x \<in> {a. b a \<noteq> 0}" by simp
  then show ?thesis unfolding sum_balances_def
    using assms by (meson member_le_sum zero_le)
qed

lemma unchecked_add_nowrap: "a + b \<le> max_uint256 \<Longrightarrow> unchecked_add a b = a + b"
  by (simp add: unchecked_add_def)

lemma unchecked_sub_nowrap:
  assumes "b \<le> a" and "a \<le> max_uint256"
  shows "unchecked_sub a b = a - b"
proof -
  have "a + (max_uint256 + 1) - b = (a - b) + (max_uint256 + 1)"
    using assms by arith
  moreover have "a - b < max_uint256 + 1" using assms by arith
  ultimately show ?thesis
    unfolding unchecked_sub_def by (metis mod_add_self2 mod_less)
qed

lemma erc20_mint_ok:
  assumes ok: "erc20_ok e" and m: "erc20_mint p e a n = Inr e'"
  shows "erc20_ok e'" and "totalSupply e' = totalSupply e + n"
    and "balances e' = (balances e)(a := balances e a + n)"
    and "allowances e' = allowances e"
proof -
  from m have bound: "totalSupply e + n \<le> max_uint256"
    by (auto simp: erc20_mint_def split: if_splits)
  from ok have fin: "finite {x. balances e x \<noteq> 0}"
    and tot: "sum_balances (balances e) = totalSupply e"
    by (simp_all add: erc20_ok_def)
  have "balances e a \<le> totalSupply e"
    using balance_le_sum [OF fin, of a] tot by simp
  with bound have nowrap: "unchecked_add (balances e a) n = balances e a + n"
    by (intro unchecked_add_nowrap) simp
  from m nowrap have e': "e' = e\<lparr>totalSupply := totalSupply e + n,
      balances := (balances e)(a := balances e a + n)\<rparr>"
    by (auto simp: erc20_mint_def split: if_splits)
  show "totalSupply e' = totalSupply e + n" and "balances e' = (balances e)(a := balances e a + n)"
    and "allowances e' = allowances e"
    by (simp_all add: e')
  have "sum_balances (balances e') + balances e a = sum_balances (balances e) + (balances e a + n)"
    using sum_balances_upd(2) [OF fin, of a "balances e a + n"] by (simp add: e')
  then have "sum_balances (balances e') = totalSupply e'"
    using tot by (simp add: e')
  moreover have "finite {x. balances e' x \<noteq> 0}"
    using sum_balances_upd(1) [OF fin, of a "balances e a + n"] by (simp add: e')
  ultimately show "erc20_ok e'"
    using bound by (simp add: erc20_ok_def e')
qed

lemma erc20_burn_ok:
  assumes ok: "erc20_ok e" and m: "erc20_burn p e a n = Inr e'"
  shows "erc20_ok e'" and "totalSupply e' + n = totalSupply e"
    and "balances e' = (balances e)(a := balances e a - n)" and "n \<le> balances e a"
    and "allowances e' = allowances e"
proof -
  from m show le: "n \<le> balances e a"
    by (auto simp: erc20_burn_def split: if_splits)
  from ok have fin: "finite {x. balances e x \<noteq> 0}"
    and tot: "sum_balances (balances e) = totalSupply e"
    and bound: "totalSupply e \<le> max_uint256"
    by (simp_all add: erc20_ok_def)
  have ble: "balances e a \<le> totalSupply e"
    using balance_le_sum [OF fin, of a] tot by simp
  have nowrap: "unchecked_sub (totalSupply e) n = totalSupply e - n"
    using le ble bound by (intro unchecked_sub_nowrap) simp_all
  from m nowrap have e': "e' = e\<lparr>balances := (balances e)(a := balances e a - n),
      totalSupply := totalSupply e - n\<rparr>"
    by (auto simp: erc20_burn_def split: if_splits)
  show "totalSupply e' + n = totalSupply e" using le ble by (simp add: e')
  show "balances e' = (balances e)(a := balances e a - n)" and "allowances e' = allowances e"
    by (simp_all add: e')
  have "sum_balances (balances e') + balances e a = sum_balances (balances e) + (balances e a - n)"
    using sum_balances_upd(2) [OF fin, of a "balances e a - n"] by (simp add: e')
  then have "sum_balances (balances e') = totalSupply e'"
    using tot le ble by (simp add: e')
  moreover have "finite {x. balances e' x \<noteq> 0}"
    using sum_balances_upd(1) [OF fin, of a "balances e a - n"] by (simp add: e')
  ultimately show "erc20_ok e'"
    using bound by (simp add: erc20_ok_def e')
qed

lemma erc20_transfer_internal_ok:
  assumes ok: "erc20_ok e" and m: "erc20_transfer_internal p e from to n = Inr e'"
  shows "erc20_ok e'" and "totalSupply e' = totalSupply e" and "allowances e' = allowances e"
proof -
  from m have le: "n \<le> balances e from"
    by (auto simp: erc20_transfer_internal_def split: if_splits)
  from ok have fin: "finite {x. balances e x \<noteq> 0}"
    and tot: "sum_balances (balances e) = totalSupply e"
    and bound: "totalSupply e \<le> max_uint256"
    by (simp_all add: erc20_ok_def)
  define b where "b = (balances e)(from := balances e from - n)"
  have fin1: "finite {x. b x \<noteq> 0}"
    unfolding b_def by (rule sum_balances_upd(1) [OF fin])
  have "sum_balances b + balances e from = sum_balances (balances e) + (balances e from - n)"
    unfolding b_def by (rule sum_balances_upd(2) [OF fin])
  then have s1: "sum_balances b + n = totalSupply e"
    using tot le by simp
  have "b to \<le> sum_balances b" by (rule balance_le_sum [OF fin1])
  with s1 bound have "b to + n \<le> max_uint256" by simp
  then have nowrap: "unchecked_add (b to) n = b to + n" by (rule unchecked_add_nowrap)
  from m nowrap have e': "e' = e\<lparr>balances := b(to := b to + n)\<rparr>"
    by (auto simp: erc20_transfer_internal_def b_def Let_def split: if_splits)
  show "totalSupply e' = totalSupply e" and "allowances e' = allowances e"
    by (simp_all add: e')
  have "sum_balances (b(to := b to + n)) + b to = sum_balances b + (b to + n)"
    by (rule sum_balances_upd(2) [OF fin1])
  then have "sum_balances (balances e') = totalSupply e'"
    using s1 by (simp add: e')
  moreover have "finite {x. balances e' x \<noteq> 0}"
    using sum_balances_upd(1) [OF fin1, of to "b to + n"] by (simp add: e')
  ultimately show "erc20_ok e'"
    using bound by (simp add: erc20_ok_def e')
qed

lemma erc20_approve_internal_same:
  "erc20_approve_internal e owner spender n = Inr e' \<Longrightarrow>
     balances e' = balances e \<and> totalSupply e' = totalSupply e"
  by (auto simp: erc20_approve_internal_def split: if_splits)

lemma erc20_spendAllowance_same:
  "erc20_spendAllowance e owner spender n = Inr e' \<Longrightarrow>
     balances e' = balances e \<and> totalSupply e' = totalSupply e"
  by (auto simp: erc20_spendAllowance_def Let_def split: if_splits
      dest: erc20_approve_internal_same)

lemma erc20_ok_cong:
  "erc20_ok e \<Longrightarrow> balances e' = balances e \<Longrightarrow> totalSupply e' = totalSupply e \<Longrightarrow> erc20_ok e'"
  by (simp add: erc20_ok_def)

lemma erc20_transferFrom_ok:
  assumes ok: "erc20_ok e" and m: "erc20_transferFrom p e sender from to n = Inr e'"
  shows "erc20_ok e'" and "totalSupply e' = totalSupply e"
proof -
  from m obtain e1 where 1: "erc20_spendAllowance e from sender n = Inr e1"
    and 2: "erc20_transfer_internal p e1 from to n = Inr e'"
    by (auto simp: erc20_transferFrom_def split: sum.splits)
  from erc20_spendAllowance_same [OF 1] have same: "balances e1 = balances e" "totalSupply e1 = totalSupply e"
    by simp_all
  have ok1: "erc20_ok e1" by (rule erc20_ok_cong [OF ok same])
  show "erc20_ok e'" by (rule erc20_transfer_internal_ok(1) [OF ok1 2])
  show "totalSupply e' = totalSupply e"
    using erc20_transfer_internal_ok(2) [OF ok1 2] same by simp
qed

section \<open>What a successful call has done\<close>

lemma pledgeAsset_Inr:
  assumes "pledgeAsset s sender ts aId aType descr v p = Inr s'"
  obtains t where
    "roles s PLEDGE_MANAGER_ROLE sender" and "\<not> paused s" and "aId \<noteq> []"
    and "assetIdToTokenId s aId = 0" and "p \<noteq> 0" and "0 < v"
    and "currentTokenId s + 1 \<le> max_uint256" and "v * discountRate s \<le> max_uint256"
    and "totalPledgedValue s + (v * discountRate s) div 100 \<le> max_uint256"
    and "erc20_mint False (erc20 s) p ((v * discountRate s) div 100 div 10 ^ 18) = Inr t"
    and "s' = s\<lparr>currentTokenId := currentTokenId s + 1,
                 assets := (assets s)(currentTokenId s :=
                   \<lparr>assetType = aType, description = descr, originalValue = v,
                    pledgedValue = (v * discountRate s) div 100, assetId = aId, pledger = p,
                    pledgeTimestamp = ts, isActive = True\<rparr>),
                 assetIdToTokenId := (assetIdToTokenId s)(aId := currentTokenId s),
                 totalPledgedValue := totalPledgedValue s + (v * discountRate s) div 100,
                 erc20 := t,
                 events := events s @
                   [AssetPledged (currentTokenId s) aId p aType v ((v * discountRate s) div 100)
                      ((v * discountRate s) div 100 div 10 ^ 18)]\<rparr>"
  using assms
  by (simp add: pledgeAsset_def Let_def split: if_splits sum.splits)

lemma releaseAsset_Inr:
  assumes "releaseAsset s sender aId h n = Inr s'"
  obtains t where
    "roles s PLEDGE_MANAGER_ROLE sender" and "\<not> paused s"
    and "assetIdToTokenId s aId \<noteq> 0" and "isActive (assets s (assetIdToTokenId s aId))"
    and "n \<le> balances (erc20 s) h"
    and "erc20_burn False (erc20 s) h n = Inr t"
    and "pledgedValue (assets s (assetIdToTokenId s aId)) div 10 ^ 18 \<le> n \<Longrightarrow>
           pledgedValue (assets s (assetIdToTokenId s aId)) \<le> totalPledgedValue s"
    and "s' = (if pledgedValue (assets s (assetIdToTokenId s aId)) div 10 ^ 18 \<le> n
           then s\<lparr>erc20 := t,
                  assets := (assets s)(assetIdToTokenId s aId :=
                    (assets s (assetIdToTokenId s aId))\<lparr>isActive := False\<rparr>),
                  totalPledgedValue :=
                    totalPledgedValue s - pledgedValue (assets s (assetIdToTokenId s aId)),
                  events := events s @
                    [AssetReleased (assetIdToTokenId s aId) aId
                       (pledger (assets s (assetIdToTokenId s aId))) n]\<rparr>
           else s\<lparr>erc20 := t,
                  events := events s @
                    [AssetReleased (assetIdToTokenId s aId) aId
                       (pledger (assets s (assetIdToTokenId s aId))) n]\<rparr>)"
  using assms
  by (simp add: releaseAsset_def Let_def split: if_splits sum.splits)

lemma createPledge_Inr:
  assumes "createPledge w sender ts agrId clnt aId aType descr v doc = Inr w'"
  obtains t where
    "roles_pm (manager w) OPERATOR_ROLE sender" and "\<not> paused_pm (manager w)"
    and "agrId \<noteq> []" and "clnt \<noteq> 0" and "0 < v"
    and "timestamp (pledgeAgreements (manager w) agrId) = 0"
    and "spreadPercentage (manager w) \<le> 100"
    and "pledgeAsset (rwaToken w) (managerAddress w) ts aId aType descr v (managerAddress w) = Inr t"
    and "w' = w\<lparr>rwaToken := t,
                 manager := (manager w)\<lparr>
                   pledgeAgreements := (pledgeAgreements (manager w))(agrId :=
                     \<lparr>agreementId = agrId, client = clnt, assetId_p = aId, assetType_p = aType,
                      description_p = descr, originalValue_p = v,
                      discountedValue = (v * discountRate (rwaToken w)) div 100,
                      tokensIssued = (v * discountRate (rwaToken w)) div 100 div 10 ^ 18,
                      clientPayment = ((v * discountRate (rwaToken w)) div 100 *
                        (100 - spreadPercentage (manager w))) div 100,
                      timestamp = ts, status = ACTIVE, documentHash = doc\<rparr>),
                   clientPledges := (clientPledges (manager w))(clnt :=
                     clientPledges (manager w) clnt @ [agrId]),
                   events_pm := events_pm (manager w) @
                     [PledgeCreated agrId clnt aId v ((v * discountRate (rwaToken w)) div 100)
                        (((v * discountRate (rwaToken w)) div 100 *
                          (100 - spreadPercentage (manager w))) div 100)]\<rparr>\<rparr>"
  using assms
  by (auto simp add: createPledge_def Let_def split: if_splits sum.splits)

section \<open>The ledger invariant\<close>

lemma tokensRedeemed_snoc:
  "events s' = events s @ [ev] \<Longrightarrow> tokensRedeemed s' tid = tokensRedeemed s tid + redeemed_by tid ev"
  by (simp add: tokensRedeemed_def)

lemma tokensRedeemed_same:
  "events s' = events s \<Longrightarrow> tokensRedeemed s' tid = tokensRedeemed s tid"
  by (simp add: tokensRedeemed_def)

lemma pledgeAsset_inv:
  assumes inv: "token_inv s" and call: "pledgeAsset s sender ts aId aType descr v p = Inr s'"
  shows "token_inv s'"
proof -
  let ?n = "(v * discountRate s) div 100 div 10 ^ 18"
  let ?c = "currentTokenId s"
  from call obtain t where mint: "erc20_mint False (erc20 s) p ?n = Inr t"
    and cur: "currentTokenId s' = ?c + 1"
    and e: "erc20 s' = t"
    and ids: "assetIdToTokenId s' = (assetIdToTokenId s)(aId := ?c)"
    and ev: "events s' = events s @ [AssetPledged ?c aId p aType v ((v * discountRate s) div 100) ?n]"
    and new: "pledgedValue (assets s' ?c) = (v * discountRate s) div 100"
    and old: "\<And>tid. tid \<noteq> ?c \<Longrightarrow> assets s' tid = assets s tid"
    by (rule pledgeAsset_Inr) simp
  from inv have ok: "erc20_ok (erc20 s)" and c1: "1 \<le> ?c"
    and lt: "\<And>a. assetIdToTokenId s a < ?c"
    and fresh: "\<And>tid. ?c \<le> tid \<Longrightarrow> tokensRedeemed s tid = 0"
    and total: "int (totalSupply (erc20 s)) =
       (\<Sum>tid = 1..<?c. int (tokensIssuedFor s tid) - int (tokensRedeemed s tid))"
    by (simp_all add: token_inv_def)
  have red: "\<And>tid. tokensRedeemed s' tid = tokensRedeemed s tid"
    using tokensRedeemed_snoc [OF ev] by simp
  have iss_old: "\<And>tid. tid \<noteq> ?c \<Longrightarrow> tokensIssuedFor s' tid = tokensIssuedFor s tid"
    by (simp add: tokensIssuedFor_def old)
  have iss_new: "tokensIssuedFor s' ?c = ?n"
    by (simp add: tokensIssuedFor_def new)
  have "(\<Sum>tid = 1..<?c + 1. int (tokensIssuedFor s' tid) - int (tokensRedeemed s' tid)) =
        (\<Sum>tid = 1..<?c. int (tokensIssuedFor s' tid) - int (tokensRedeemed s' tid)) +
          (int (tokensIssuedFor s' ?c) - int (tokensRedeemed s' ?c))"
    using c1 by simp
  also have "(\<Sum>tid = 1..<?c. int (tokensIssuedFor s' tid) - int (tokensRedeemed s' tid)) =
        (\<Sum>tid = 1..<?c. int (tokensIssuedFor s tid) - int (tokensRedeemed s tid))"
    by (rule sum.cong) (simp_all add: red iss_old)
  also have "int (tokensIssuedFor s' ?c) - int (tokensRedeemed s' ?c) = int ?n"
    using fresh [of ?c] by (simp add: red iss_new)
  finally have sum': "(\<Sum>tid = 1..<?c + 1. int (tokensIssuedFor s' tid) - int (tokensRedeemed s' tid)) =
        int (totalSupply (erc20 s)) + int ?n"
    using total by simp
  have "erc20_ok (erc20 s')"
    using erc20_mint_ok(1) [OF ok mint] e by simp
  moreover have "int (totalSupply (erc20 s')) =
      (\<Sum>tid = 1..<currentTokenId s'. int (tokensIssuedFor s' tid) - int (tokensRedeemed s' tid))"
    using erc20_mint_ok(2) [OF ok mint] e sum' cur by simp
  moreover have "\<forall>a. assetIdToTokenId s' a < currentTokenId s'"
    using lt by (simp add: ids cur less_Suc_eq)
  moreover have "\<forall>tid. currentTokenId s' \<le> tid \<longrightarrow> tokensRedeemed s' tid = 0"
    using fresh by (simp add: red cur)
  ultimately show ?thesis
    using cur by (simp add: token_inv_def)
qed

lemma releaseAsset_inv:
  assumes inv: "token_inv s" and call: "releaseAsset s sender aId h n = Inr s'"
  shows "token_inv s'"
proof -
  let ?t = "assetIdToTokenId s aId"
  let ?c = "currentTokenId s"
  from call obtain t where burn: "erc20_burn False (erc20 s) h n = Inr t"
    and t0: "?t \<noteq> 0"
    and cur: "currentTokenId s' = ?c"
    and e: "erc20 s' = t"
    and ids: "assetIdToTokenId s' = assetIdToTokenId s"
    and ev: "events s' = events s @ [AssetReleased ?t aId (pledger (assets s ?t)) n]"
    and pv: "\<And>tid. pledgedValue (assets s' tid) = pledgedValue (assets s tid)"
    by (rule releaseAsset_Inr) (simp split: if_splits)
  from inv have ok: "erc20_ok (erc20 s)" and c1: "1 \<le> ?c"
    and lt: "\<And>a. assetIdToTokenId s a < ?c"
    and fresh: "\<And>tid. ?c \<le> tid \<Longrightarrow> tokensRedeemed s tid = 0"
    and total: "int (totalSupply (erc20 s)) =
       (\<Sum>tid = 1..<?c. int (tokensIssuedFor s tid) - int (tokensRedeemed s tid))"
    by (simp_all add: token_inv_def)
  have mem: "?t \<in> {1..<?c}" using t0 lt [of aId] by simp
  have red: "\<And>tid. tokensRedeemed s' tid = tokensRedeemed s tid + (if ?t = tid then n else 0)"
    using tokensRedeemed_snoc [OF ev] by simp
  have iss: "\<And>tid. tokensIssuedFor s' tid = tokensIssuedFor s tid"
    by (simp add: tokensIssuedFor_def pv)
  have "(\<Sum>tid = 1..<?c. int (tokensIssuedFor s' tid) - int (tokensRedeemed s' tid)) =
        (\<Sum>tid = 1..<?c. (int (tokensIssuedFor s tid) - int (tokensRedeemed s tid))
            - (if ?t = tid then int n else 0))"
    by (rule sum.cong) (simp_all add: red iss)
  also have "\<dots> = (\<Sum>tid = 1..<?c. int (tokensIssuedFor s tid) - int (tokensRedeemed s tid))
       - (\<Sum>tid = 1..<?c. if ?t = tid then int n else 0)"
    by (rule sum_subtractf)
  also have "(\<Sum>tid = 1..<?c. if ?t = tid then int n else 0) = int n"
    using mem by (simp add: sum.delta)
  finally have sum': "(\<Sum>tid = 1..<?c. int (tokensIssuedFor s' tid) - int (tokensRedeemed s' tid)) =
        int (totalSupply (erc20 s)) - int n"
    using total by simp
  have "erc20_ok (erc20 s')"
    using erc20_burn_ok(1) [OF ok burn] e by simp
  moreover have "int (totalSupply (erc20 s')) =
      (\<Sum>tid = 1..<currentTokenId s'. int (tokensIssuedFor s' tid) - int (tokensRedeemed s' tid))"
    using erc20_burn_ok(2) [OF ok burn] e sum' cur by simp
  moreover have "\<forall>a. assetIdToTokenId s' a < currentTokenId s'"
    using lt by (simp add: ids cur)
  moreover have "\<forall>tid. currentTokenId s' \<le> tid \<longrightarrow> tokensRedeemed s' tid = 0"
    using fresh mem by (auto simp add: red cur)
  ultimately show ?thesis
    using cur c1 by (simp add: token_inv_def)
qed

lemma token_inv_frame:
  assumes "token_inv s" and "erc20_ok (erc20 s')"
    and "totalSupply (erc20 s') = totalSupply (erc20 s)"
    and "currentTokenId s' = currentTokenId s"
    and "assetIdToTokenId s' = assetIdToTokenId s"
    and "assets s' = assets s"
    and "\<And>tid. tokensRedeemed s' tid = tokensRedeemed s tid"
  shows "token_inv s'"
  using assms by (simp add: token_inv_def tokensIssuedFor_def)

lemma token_inv_constructor: "token_inv (RWAToken_constructor admin)"
  by (simp add: token_inv_def RWAToken_constructor_def erc20_ok_def sum_balances_def
      tokensRedeemed_def)

lemma transfer_inv:
  assumes inv: "token_inv s" and call: "transfer s sender to n = Inr s'"
  shows "token_inv s'"
proof -
  from call obtain t where t: "erc20_transfer_internal (paused s) (erc20 s) sender to n = Inr t"
    and s': "s' = s\<lparr>erc20 := t\<rparr>"
    by (auto simp: transfer_def erc20_transfer_def split: sum.splits)
  from inv have ok: "erc20_ok (erc20 s)" by (simp add: token_inv_def)
  show ?thesis
    using erc20_transfer_internal_ok(1,2) [OF ok t]
    by (intro token_inv_frame [OF inv]) (simp_all add: s' tokensRedeemed_def)
qed

lemma transferFrom_inv:
  assumes inv: "token_inv s" and call: "transferFrom s sender from to n = Inr s'"
  shows "token_inv s'"
proof -
  from call obtain t where t: "erc20_transferFrom (paused s) (erc20 s) sender from to n = Inr t"
    and s': "s' = s\<lparr>erc20 := t\<rparr>"
    by (auto simp: transferFrom_def split: sum.splits)
  from inv have ok: "erc20_ok (erc20 s)" by (simp add: token_inv_def)
  show ?thesis
    using erc20_transferFrom_ok [OF ok t]
    by (intro token_inv_frame [OF inv]) (simp_all add: s' tokensRedeemed_def)
qed

lemma allowance_calls_inv:
  assumes inv: "token_inv s"
    and call: "approve s sender sp n = Inr s' \<or> increaseAllowance s sender sp n = Inr s' \<or>
               decreaseAllowance s sender sp n = Inr s'"
  shows "token_inv s'"
proof -
  from call obtain t a where t: "erc20_approve_internal (erc20 s) sender sp a = Inr t"
    and s': "s' = s\<lparr>erc20 := t\<rparr>"
    by (auto simp: approve_def increaseAllowance_def decreaseAllowance_def erc20_approve_def
        erc20_increaseAllowance_def erc20_decreaseAllowance_def split: sum.splits if_splits)
  from inv have ok: "erc20_ok (erc20 s)" by (simp add: token_inv_def)
  have "erc20_ok t"
    using erc20_approve_internal_same [OF t] by (intro erc20_ok_cong [OF ok]) simp_all
  then show ?thesis
    using erc20_approve_internal_same [OF t]
    by (intro token_inv_frame [OF inv]) (simp_all add: s' tokensRedeemed_def)
qed

lemma admin_calls_inv:
  assumes inv: "token_inv s"
    and call: "setDiscountRate s sender n = Inr s' \<or> pause s sender = Inr s' \<or>
               unpause s sender = Inr s' \<or> grantRole s sender r a = Inr s' \<or>
               revokeRole s sender r a = Inr s' \<or> renounceRole s sender r a = Inr s'"
  shows "token_inv s'"
proof -
  from call have "erc20 s' = erc20 s" and "currentTokenId s' = currentTokenId s"
    and "assetIdToTokenId s' = assetIdToTokenId s" and "assets s' = assets s"
    and "\<And>tid. tokensRedeemed s' tid = tokensRedeemed s tid"
    by (auto simp: setDiscountRate_def pause_def unpause_def grantRole_def revokeRole_def
        renounceRole_def tokensRedeemed_def split: if_splits)
  moreover from inv have "erc20_ok (erc20 s)" by (simp add: token_inv_def)
  ultimately show ?thesis
    by (intro token_inv_frame [OF inv]) simp_all
qed

lemma token_exec_inv:
  assumes "token_inv s" and "token_exec s sender ts c = Inr s'"
  shows "token_inv s'"
proof (cases c)
  case PledgeAsset with assms show ?thesis by (auto dest: pledgeAsset_inv)
next
  case ReleaseAsset with assms show ?thesis by (auto dest: releaseAsset_inv)
next
  case Transfer with assms show ?thesis by (auto dest: transfer_inv)
next
  case TransferFrom with assms show ?thesis by (auto dest: transferFrom_inv)
next
  case (Approve sp n) with assms show ?thesis
    using allowance_calls_inv [of s sender sp n s'] by simp
next
  case (IncreaseAllowance sp n) with assms show ?thesis
    using allowance_calls_inv [of s sender sp n s'] by simp
next
  case (DecreaseAllowance sp n) with assms show ?thesis
    using allowance_calls_inv [of s sender sp n s'] by simp
next
  case (SetDiscountRate n) with assms show ?thesis
    using admin_calls_inv [of s sender n s'] by simp
next
  case Pause with assms show ?thesis
    using admin_calls_inv [of s sender _ s'] by simp
next
  case Unpause with assms show ?thesis
    using admin_calls_inv [of s sender _ s'] by simp
next
  case (GrantRole r a) with assms show ?thesis
    using admin_calls_inv [of s sender _ s' r a] by simp
next
  case (RevokeRole r a) with assms show ?thesis
    using admin_calls_inv [of s sender _ s' r a] by simp
next
  case (RenounceRole r a) with assms show ?thesis
    using admin_calls_inv [of s sender _ s' r a] by simp
qed

lemma token_reachable_inv: "token_reachable s \<Longrightarrow> token_inv s"
  by (induction rule: token_reachable.induct) (auto intro: token_inv_constructor token_exec_inv)

section \<open>Evaluating the demonstration deployment\<close>

lemmas demo_eval =
  token_after_def RWAToken_constructor_def pledgeAsset_def releaseAsset_def erc20_mint_def
  erc20_burn_def unchecked_add_def unchecked_sub_def max_uint256_def Let_def

lemma token_after_reachable: "token_reachable s \<Longrightarrow> token_reachable (token_after s sender ts c)"
  by (auto simp: token_after_def split: sum.splits intro: token_reachable.called)

lemma demo_asset_call:
  "pledgeAsset (RWAToken_constructor 1) 1 1700000100 ''asset-1'' ''real_estate'' ''flat''
     (100000 * 10 ^ 18) 5 = Inr demo_asset"
  by (simp add: demo_asset_def demo_eval)

lemma demo_token_eq:
  "demo_token = (RWAToken_constructor 1)\<lparr>roles :=
     (roles (RWAToken_constructor 1))(PLEDGE_MANAGER_ROLE :=
       (roles (RWAToken_constructor 1) PLEDGE_MANAGER_ROLE)(2 := True))\<rparr>"
  by (simp add: demo_token_def token_after_def grantRole_def RWAToken_constructor_def)

lemmas demo_world_eval =
  manager_after_def createPledge_def demo_world_def demo_token_eq demo_usdt_def
  RWAToken_constructor_def PledgeManager_initial_def PledgeAgreement_zero_def pledgeAsset_def
  erc20_mint_def unchecked_add_def max_uint256_def Let_def

lemma demo_pledged_call:
  "createPledge demo_world 1 1700000100 ''AG-1'' 4 ''asset-1'' ''real_estate'' ''flat''
     (100000 * 10 ^ 18) ''Qm'' = Inr demo_pledged"
  by (simp add: demo_pledged_def demo_world_eval)

lemmas demo_purchase_eval =
  purchaseTokens_def erc20_transferFrom_def erc20_spendAllowance_def erc20_approve_internal_def
  erc20_transfer_internal_def transfer_def erc20_transfer_def

lemma demo_bought_call:
  "purchaseTokens demo_pledged 3 1700000200 ''AG-1'' 1000 ''P-1'' = Inr demo_bought"
  by (simp add: demo_bought_def demo_pledged_def demo_world_eval demo_purchase_eval)

section \<open>Pledged value and tokens issued\<close>

text \<open>
  Claim C1. Every successful \<^verbatim>\<open>pledgeAsset\<close> (the specification's \<open>registerAsset\<close>), in
  any reachable state of the ledger, has \<open>originalValue > 0\<close>, stores a record whose
  \<open>pledgedValue\<close> is \<open>floor(originalValue * discountRate / 100)\<close> for the discount rate
  current at the call, raises the beneficiary's balance (and the total supply) by
  \<open>pledgedValue div 10^18\<close> and no other balance, and records that number as
  \<open>tokensIssued\<close> in the \<^verbatim>\<open>AssetPledged\<close> event it appends; the function itself has no
  return value.
\<close>

theorem pledgeAsset_values:
  assumes reach: "token_reachable s"
    and call: "pledgeAsset s sender ts aId aType descr v p = Inr s'"
  shows "0 < v \<and>
         assetIdToTokenId s' aId = currentTokenId s \<and>
         originalValue (assets s' (currentTokenId s)) = v \<and>
         pledgedValue (assets s' (currentTokenId s)) = (v * discountRate s) div 100 \<and>
         balances (erc20 s') p =
           balances (erc20 s) p + pledgedValue (assets s' (currentTokenId s)) div 10 ^ 18 \<and>
         (\<forall>a. a \<noteq> p \<longrightarrow> balances (erc20 s') a = balances (erc20 s) a) \<and>
         totalSupply (erc20 s') =
           totalSupply (erc20 s) + pledgedValue (assets s' (currentTokenId s)) div 10 ^ 18 \<and>
         events s' = events s @
           [AssetPledged (currentTokenId s) aId p aType v
              (pledgedValue (assets s' (currentTokenId s)))
              (pledgedValue (assets s' (currentTokenId s)) div 10 ^ 18)]"
proof -
  from token_reachable_inv [OF reach] have ok: "erc20_ok (erc20 s)"
    by (simp add: token_inv_def)
  from call obtain t where v: "0 < v"
    and mint: "erc20_mint False (erc20 s) p ((v * discountRate s) div 100 div 10 ^ 18) = Inr t"
    and s': "s' = s\<lparr>currentTokenId := currentTokenId s + 1,
                 assets := (assets s)(currentTokenId s :=
                   \<lparr>assetType = aType, description = descr, originalValue = v,
                    pledgedValue = (v * discountRate s) div 100, assetId = aId, pledger = p,
                    pledgeTimestamp = ts, isActive = True\<rparr>),
                 assetIdToTokenId := (assetIdToTokenId s)(aId := currentTokenId s),
                 totalPledgedValue := totalPledgedValue s + (v * discountRate s) div 100,
                 erc20 := t,
                 events := events s @
                   [AssetPledged (currentTokenId s) aId p aType v ((v * discountRate s) div 100)
                      ((v * discountRate s) div 100 div 10 ^ 18)]\<rparr>"
    by (rule pledgeAsset_Inr)
  show ?thesis
    using v erc20_mint_ok(2,3) [OF ok mint] by (simp add: s')
qed

theorem pledgeAsset_values_witness:
  "token_reachable (RWAToken_constructor 1) \<and>
   pledgeAsset (RWAToken_constructor 1) 1 1700000100 ''asset-1'' ''real_estate'' ''flat''
     (100000 * 10 ^ 18) 5 = Inr demo_asset \<and>
   pledgedValue (assets demo_asset 1) = 70000 * 10 ^ 18 \<and>
   balances (erc20 demo_asset) 5 = 70000 \<and>
   totalSupply (erc20 demo_asset) = 70000 \<and>
   events demo_asset =
     [AssetPledged 1 ''asset-1'' 5 ''real_estate'' (100000 * 10 ^ 18) (70000 * 10 ^ 18) 70000]"
proof -
  have r: "token_reachable (RWAToken_constructor 1)" by (rule token_reachable.constructed)
  from pledgeAsset_values [OF r demo_asset_call] show ?thesis
    using r demo_asset_call by (simp add: RWAToken_constructor_def)
qed

section \<open>Client payment and the spread\<close>

text \<open>
  Claim C2. A successful \<^verbatim>\<open>createPledge\<close> stores an agreement whose \<open>discountedValue\<close> is
  \<open>floor(originalValue * discountRate / 100)\<close> and whose \<open>clientPayment\<close> is
  \<open>floor(discountedValue * (100 - spreadPercentage) / 100)\<close> for the spread in the state
  the call started in (which is at most 100, the subtraction being checked). A
  successful \<^verbatim>\<open>setSpreadPercentage\<close>, in whatever state it is made, sets the spread and
  leaves every stored agreement, its \<open>clientPayment\<close> included, as it was.
\<close>

theorem createPledge_clientPayment:
  assumes "createPledge w sender ts agrId clnt aId aType descr v doc = Inr w'"
  shows "discountedValue (pledgeAgreements (manager w') agrId) =
           (v * discountRate (rwaToken w)) div 100 \<and>
         spreadPercentage (manager w) \<le> 100 \<and>
         clientPayment (pledgeAgreements (manager w') agrId) =
           (discountedValue (pledgeAgreements (manager w') agrId) *
              (100 - spreadPercentage (manager w))) div 100 \<and>
         (\<forall>w1 c newSpread w2. setSpreadPercentage w1 c newSpread = Inr w2 \<longrightarrow>
            spreadPercentage (manager w2) = newSpread \<and>
            pledgeAgreements (manager w2) = pledgeAgreements (manager w1))"
proof -
  have "\<forall>w1 c newSpread w2. setSpreadPercentage w1 c newSpread = Inr w2 \<longrightarrow>
            spreadPercentage (manager w2) = newSpread \<and>
            pledgeAgreements (manager w2) = pledgeAgreements (manager w1)"
    by (auto simp: setSpreadPercentage_def Let_def split: if_splits)
  moreover from assms have "discountedValue (pledgeAgreements (manager w') agrId) =
           (v * discountRate (rwaToken w)) div 100 \<and>
         spreadPercentage (manager w) \<le> 100 \<and>
         clientPayment (pledgeAgreements (manager w') agrId) =
           (discountedValue (pledgeAgreements (manager w') agrId) *
              (100 - spreadPercentage (manager w))) div 100"
    by (elim createPledge_Inr) simp
  ultimately show ?thesis by blast
qed

lemma demo_respread_call: "setSpreadPercentage demo_pledged 1 20 = Inr demo_respread"
  by (simp add: demo_respread_def demo_pledged_def demo_world_eval setSpreadPercentage_def)

theorem createPledge_clientPayment_witness:
  "createPledge demo_world 1 1700000100 ''AG-1'' 4 ''asset-1'' ''real_estate'' ''flat''
     (100000 * 10 ^ 18) ''Qm'' = Inr demo_pledged \<and>
   discountedValue (pledgeAgreements (manager demo_pledged) ''AG-1'') = 70000 * 10 ^ 18 \<and>
   clientPayment (pledgeAgreements (manager demo_pledged) ''AG-1'') = 59500 * 10 ^ 18 \<and>
   setSpreadPercentage demo_pledged 1 20 = Inr demo_respread \<and>
   spreadPercentage (manager demo_respread) = 20 \<and>
   clientPayment (pledgeAgreements (manager demo_respread) ''AG-1'') = 59500 * 10 ^ 18"
proof -
  have rate: "discountRate (rwaToken demo_world) = 70"
    and spread: "spreadPercentage (manager demo_world) = 15"
    by (simp_all add: demo_world_def demo_token_eq RWAToken_constructor_def
        PledgeManager_initial_def)
  from createPledge_clientPayment [OF demo_pledged_call]
  have 1: "discountedValue (pledgeAgreements (manager demo_pledged) ''AG-1'') = 70000 * 10 ^ 18"
    and 2: "clientPayment (pledgeAgreements (manager demo_pledged) ''AG-1'') = 59500 * 10 ^ 18"
    and 3: "\<And>w1 c n w2. setSpreadPercentage w1 c n = Inr w2 \<Longrightarrow>
              spreadPercentage (manager w2) = n \<and>
              pledgeAgreements (manager w2) = pledgeAgreements (manager w1)"
    by (simp_all add: rate spread)
  from 3 [OF demo_respread_call] 1 2 demo_pledged_call demo_respread_call
  show ?thesis by simp
qed

section \<open>Conservation of the token supply\<close>

text \<open>
  Claim C3. In every state the ledger reaches by any sequence of its operations, the
  balance entries (finitely many are non-zero) add up to the total supply, and that
  sum equals the sum over all asset records, which are the token ids from 1 up to the
  counter, of the tokens issued for the record minus the tokens redeemed against it so
  far. The difference is taken in the integers: \<^verbatim>\<open>releaseAsset\<close> burns whatever amount
  the holder has, so the redemptions against one record may exceed its issue, as they
  do for the second asset of the example that follows.
\<close>

theorem conservation_of_supply:
  assumes "token_reachable s"
  shows "finite {a. balances (erc20 s) a \<noteq> 0} \<and>
         sum_balances (balances (erc20 s)) = totalSupply (erc20 s) \<and>
         int (sum_balances (balances (erc20 s))) =
           (\<Sum>tokenId = 1..<currentTokenId s.
              int (tokensIssuedFor s tokenId) - int (tokensRedeemed s tokenId))"
  using token_reachable_inv [OF assms] by (simp add: token_inv_def erc20_ok_def)

lemma demo_over_released_fields:
  "totalSupply (erc20 demo_over_released) = 69070"
  "currentTokenId demo_over_released = 3"
  "tokensIssuedFor demo_over_released 1 = 70000"
  "tokensRedeemed demo_over_released 1 = 0"
  "tokensIssuedFor demo_over_released 2 = 70"
  "tokensRedeemed demo_over_released 2 = 1000"
  by (simp_all add: demo_over_released_def demo_two_assets_def demo_asset_def demo_eval
      tokensIssuedFor_def tokensRedeemed_def)

theorem conservation_of_supply_witness:
  "token_reachable demo_over_released \<and>
   sum_balances (balances (erc20 demo_over_released)) = 69070 \<and>
   tokensIssuedFor demo_over_released 1 = 70000 \<and> tokensRedeemed demo_over_released 1 = 0 \<and>
   tokensIssuedFor demo_over_released 2 = 70 \<and> tokensRedeemed demo_over_released 2 = 1000 \<and>
   (\<Sum>tokenId = 1..<3.
      int (tokensIssuedFor demo_over_released tokenId) -
      int (tokensRedeemed demo_over_released tokenId)) = 69070"
proof -
  have r: "token_reachable demo_over_released"
    unfolding demo_over_released_def demo_two_assets_def demo_asset_def
    by (intro token_after_reachable token_reachable.constructed)
  from conservation_of_supply [OF r] show ?thesis
    using r demo_over_released_fields by simp
qed

section \<open>Release after pledge\<close>

lemma registered_kept:
  assumes inv: "token_inv s" and reg: "assetIdToTokenId s aId \<noteq> 0"
    and call: "token_exec s sender ts c = Inr s'"
  shows "assetIdToTokenId s' aId = assetIdToTokenId s aId"
    and "pledgedValue (assets s' (assetIdToTokenId s aId)) =
         pledgedValue (assets s (assetIdToTokenId s aId))"
    and "\<not> isActive (assets s (assetIdToTokenId s aId)) \<Longrightarrow>
         \<not> isActive (assets s' (assetIdToTokenId s aId))"
proof -
  let ?t = "assetIdToTokenId s aId"
  from inv have lt: "?t < currentTokenId s" by (simp add: token_inv_def)
  have "assetIdToTokenId s' aId = ?t \<and>
        pledgedValue (assets s' ?t) = pledgedValue (assets s ?t) \<and>
        (\<not> isActive (assets s ?t) \<longrightarrow> \<not> isActive (assets s' ?t))"
  proof (cases c)
    case (PledgeAsset a b d v p)
    with call have "pledgeAsset s sender ts a b d v p = Inr s'" by simp
    then show ?thesis
      using reg lt by (elim pledgeAsset_Inr) auto
  next
    case (ReleaseAsset a h n)
    with call have "releaseAsset s sender a h n = Inr s'" by simp
    then show ?thesis
      by (elim releaseAsset_Inr) (auto split: if_splits)
  next
    case (SetDiscountRate n)
    with call show ?thesis by (auto simp: setDiscountRate_def split: if_splits)
  next
    case Pause
    with call show ?thesis by (auto simp: pause_def split: if_splits)
  next
    case Unpause
    with call show ?thesis by (auto simp: unpause_def split: if_splits)
  next
    case (Transfer dst n)
    with call show ?thesis by (auto simp: transfer_def split: sum.splits)
  next
    case (TransferFrom src dst n)
    with call show ?thesis by (auto simp: transferFrom_def split: sum.splits)
  next
    case (Approve sp n)
    with call show ?thesis by (auto simp: approve_def split: sum.splits)
  next
    case (IncreaseAllowance sp n)
    with call show ?thesis by (auto simp: increaseAllowance_def split: sum.splits)
  next
    case (DecreaseAllowance sp n)
    with call show ?thesis by (auto simp: decreaseAllowance_def split: sum.splits)
  next
    case (GrantRole r a)
    with call show ?thesis by (auto simp: grantRole_def split: if_splits)
  next
    case (RevokeRole r a)
    with call show ?thesis by (auto simp: revokeRole_def split: if_splits)
  next
    case (RenounceRole r a)
    with call show ?thesis by (auto simp: renounceRole_def split: if_splits)
  qed
  then show "assetIdToTokenId s' aId = ?t"
    and "pledgedValue (assets s' ?t) = pledgedValue (assets s ?t)"
    and "\<not> isActive (assets s ?t) \<Longrightarrow> \<not> isActive (assets s' ?t)"
    by simp_all
qed

lemma token_reaches_kept:
  assumes "token_reaches s s'" and "token_inv s" and "assetIdToTokenId s aId \<noteq> 0"
  shows "token_inv s' \<and> assetIdToTokenId s' aId = assetIdToTokenId s aId \<and>
         pledgedValue (assets s' (assetIdToTokenId s aId)) =
           pledgedValue (assets s (assetIdToTokenId s aId)) \<and>
         (\<not> isActive (assets s (assetIdToTokenId s aId)) \<longrightarrow>
          \<not> isActive (assets s' (assetIdToTokenId s aId)))"
  using assms
proof (induction rule: token_reaches.induct)
  case (here s)
  then show ?case by simp
next
  case (later s s1 sender ts c s2)
  from later.IH [OF later.prems] have inv1: "token_inv s1"
    and id1: "assetIdToTokenId s1 aId = assetIdToTokenId s aId"
    and pv1: "pledgedValue (assets s1 (assetIdToTokenId s aId)) =
              pledgedValue (assets s (assetIdToTokenId s aId))"
    and ac1: "\<not> isActive (assets s (assetIdToTokenId s aId)) \<longrightarrow>
              \<not> isActive (assets s1 (assetIdToTokenId s aId))"
    by simp_all
  from later.prems id1 have reg1: "assetIdToTokenId s1 aId \<noteq> 0" by simp
  from registered_kept [OF inv1 reg1 later.hyps(2)] token_exec_inv [OF inv1 later.hyps(2)]
  show ?case using id1 pv1 ac1 by simp
qed

lemma releaseAsset_inactive:
  assumes "assetIdToTokenId s aId \<noteq> 0" and "\<not> isActive (assets s (assetIdToTokenId s aId))"
  shows "\<exists>e. releaseAsset s c aId h n = Inl e"
    and "roles s PLEDGE_MANAGER_ROLE c \<Longrightarrow> \<not> paused s \<Longrightarrow>
         releaseAsset s c aId h n = Inl (Revert ''Asset is not active'')"
  using assms by (simp_all add: releaseAsset_def Let_def)

text \<open>
  Claim C4. A successful \<^verbatim>\<open>pledgeAsset\<close> on a reachable ledger leaves the asset active
  with its \<open>pledgedValue\<close> added to \<open>totalPledgedValue\<close>. Whatever happens in between, a
  later successful \<^verbatim>\<open>releaseAsset\<close> for that asset id whose \<open>tokensToRedeem\<close> is at least
  the asset's issued token amount clears the active flag and takes exactly that
  \<open>pledgedValue\<close> off \<open>totalPledgedValue\<close>. From then on, in every later state, every
  \<^verbatim>\<open>releaseAsset\<close> on the same asset id reverts and leaves the whole state, the
  accumulator and the flag with it, as it was; the revert is \<open>Asset is not active\<close>
  for a caller that passes the two modifiers in front of the body (it holds
  \<^verbatim>\<open>PLEDGE_MANAGER_ROLE\<close> and the ledger is not paused). The subtraction therefore
  happens once.
\<close>

theorem release_round_trip:
  assumes reach: "token_reachable s0"
    and pledge: "pledgeAsset s0 c0 ts0 aId aType descr v p = Inr s1"
    and between: "token_reaches s1 s2"
    and release: "releaseAsset s2 c2 aId h n = Inr s3"
    and full: "(v * discountRate s0) div 100 div 10 ^ 18 \<le> n"
    and after: "token_reaches s3 s4"
  shows "isActive (assets s1 (currentTokenId s0)) \<and>
         pledgedValue (assets s1 (currentTokenId s0)) = (v * discountRate s0) div 100 \<and>
         totalPledgedValue s1 = totalPledgedValue s0 + (v * discountRate s0) div 100 \<and>
         \<not> isActive (assets s3 (currentTokenId s0)) \<and>
         totalPledgedValue s3 + (v * discountRate s0) div 100 = totalPledgedValue s2 \<and>
         (\<forall>c h' n' ts.
            (\<exists>e. releaseAsset s4 c aId h' n' = Inl e) \<and>
            token_after s4 c ts (ReleaseAsset aId h' n') = s4 \<and>
            (roles s4 PLEDGE_MANAGER_ROLE c \<and> \<not> paused s4 \<longrightarrow>
               releaseAsset s4 c aId h' n' = Inl (Revert ''Asset is not active'')))"
proof -
  let ?t = "currentTokenId s0"
  let ?pv = "(v * discountRate s0) div 100"
  have inv0: "token_inv s0" by (rule token_reachable_inv [OF reach])
  then have t0: "?t \<noteq> 0" by (simp add: token_inv_def)
  have inv1: "token_inv s1" by (rule pledgeAsset_inv [OF inv0 pledge])
  from pledge have id1: "assetIdToTokenId s1 aId = ?t"
    and act1: "isActive (assets s1 ?t)"
    and pv1: "pledgedValue (assets s1 ?t) = ?pv"
    and tot1: "totalPledgedValue s1 = totalPledgedValue s0 + ?pv"
    by (elim pledgeAsset_Inr, simp)+
  from id1 t0 have reg1: "assetIdToTokenId s1 aId \<noteq> 0" by simp
  from token_reaches_kept [OF between inv1 reg1] id1 pv1
  have inv2: "token_inv s2" and id2: "assetIdToTokenId s2 aId = ?t"
    and pv2: "pledgedValue (assets s2 ?t) = ?pv"
    by simp_all
  have inv3: "token_inv s3" by (rule releaseAsset_inv [OF inv2 release])
  from release full id2 pv2 have id3: "assetIdToTokenId s3 aId = ?t"
    and act3: "\<not> isActive (assets s3 ?t)"
    and tot3: "totalPledgedValue s3 + ?pv = totalPledgedValue s2"
    by (elim releaseAsset_Inr, simp)+
  from id3 t0 have reg3: "assetIdToTokenId s3 aId \<noteq> 0" by simp
  from token_reaches_kept [OF after inv3 reg3] id3 act3
  have id4: "assetIdToTokenId s4 aId = ?t" and act4: "\<not> isActive (assets s4 ?t)"
    by simp_all
  from id4 t0 act4 have reg4: "assetIdToTokenId s4 aId \<noteq> 0"
    and ina4: "\<not> isActive (assets s4 (assetIdToTokenId s4 aId))"
    by simp_all
  have again: "\<forall>c h' n' ts.
            (\<exists>e. releaseAsset s4 c aId h' n' = Inl e) \<and>
            token_after s4 c ts (ReleaseAsset aId h' n') = s4 \<and>
            (roles s4 PLEDGE_MANAGER_ROLE c \<and> \<not> paused s4 \<longrightarrow>
               releaseAsset s4 c aId h' n' = Inl (Revert ''Asset is not active''))"
  proof (intro allI conjI impI)
    fix c h' n' ts
    show fails: "\<exists>e. releaseAsset s4 c aId h' n' = Inl e"
      by (rule releaseAsset_inactive(1) [OF reg4 ina4])
    then show "token_after s4 c ts (ReleaseAsset aId h' n') = s4"
      by (auto simp: token_after_def)
    assume "roles s4 PLEDGE_MANAGER_ROLE c \<and> \<not> paused s4"
    then show "releaseAsset s4 c aId h' n' = Inl (Revert ''Asset is not active'')"
      using releaseAsset_inactive(2) [OF reg4 ina4] by simp
  qed
  show ?thesis
    using act1 pv1 tot1 act3 tot3 again by simp
qed

lemma demo_released_call: "releaseAsset demo_asset 1 ''asset-1'' 5 70000 = Inr demo_released"
  by (simp add: demo_released_def demo_asset_def demo_eval)

theorem release_round_trip_witness:
  "token_reachable (RWAToken_constructor 1) \<and>
   pledgeAsset (RWAToken_constructor 1) 1 1700000100 ''asset-1'' ''real_estate'' ''flat''
     (100000 * 10 ^ 18) 5 = Inr demo_asset \<and>
   token_reaches demo_asset demo_asset \<and>
   releaseAsset demo_asset 1 ''asset-1'' 5 70000 = Inr demo_released \<and>
   token_reaches demo_released demo_released \<and>
   totalPledgedValue demo_asset = 70000 * 10 ^ 18 \<and>
   \<not> isActive (assets demo_released 1) \<and>
   totalPledgedValue demo_released = 0 \<and>
   releaseAsset demo_released 1 ''asset-1'' 5 0 = Inl (Revert ''Asset is not active'') \<and>
   token_after demo_released 1 1700000300 (ReleaseAsset ''asset-1'' 5 0) = demo_released"
proof -
  have r: "token_reachable (RWAToken_constructor 1)" by (rule token_reachable.constructed)
  have full: "(100000 * 10 ^ 18 * discountRate (RWAToken_constructor 1)) div 100 div 10 ^ 18
      \<le> (70000 :: nat)"
    by (simp add: RWAToken_constructor_def)
  have auth: "roles demo_released PLEDGE_MANAGER_ROLE 1 \<and> \<not> paused demo_released"
    by (simp add: demo_released_def demo_asset_def demo_eval)
  from release_round_trip [OF r demo_asset_call token_reaches.here demo_released_call full
      token_reaches.here]
  show ?thesis
    using r demo_asset_call demo_released_call auth
    by (simp add: RWAToken_constructor_def token_reaches.here)
qed

section \<open>Purchase identifiers\<close>







section \<open>A second pledge under the same agreement id\<close>

text \<open>
  Claim C6. After a successful \<^verbatim>\<open>createPledge\<close>, a second \<^verbatim>\<open>createPledge\<close> with the same
  agreement id, made by a holder of \<^verbatim>\<open>OPERATOR_ROLE\<close> with an otherwise valid client and
  value, reverts with \<open>Agreement already exists\<close> and leaves the whole state as the
  first call left it. The contract recognises a stored agreement by its non-zero
  \<open>timestamp\<close>, so the first call is taken at a positive block time, as every block of
  a chain has.
\<close>

theorem createPledge_twice:
  assumes first: "createPledge w c1 ts1 agrId clnt1 aId1 aType1 descr1 v1 doc1 = Inr w1"
    and time: "0 < ts1"
    and auth: "roles_pm (manager w1) OPERATOR_ROLE c2"
    and valid: "clnt2 \<noteq> 0" "0 < v2"
  shows "createPledge w1 c2 ts2 agrId clnt2 aId2 aType2 descr2 v2 doc2 =
           Inl (Revert ''Agreement already exists'') \<and>
         manager_after w1 c2 ts2 (CreatePledge agrId clnt2 aId2 aType2 descr2 v2 doc2) = w1"
proof -
  from first have ne: "agrId \<noteq> []" and np: "\<not> paused_pm (manager w1)"
    and stored: "timestamp (pledgeAgreements (manager w1) agrId) = ts1"
    by (elim createPledge_Inr, simp)+
  have "createPledge w1 c2 ts2 agrId clnt2 aId2 aType2 descr2 v2 doc2 =
           Inl (Revert ''Agreement already exists'')"
    using ne np stored time auth valid by (simp add: createPledge_def)
  then show ?thesis by (simp add: manager_after_def)
qed

theorem createPledge_twice_witness:
  "createPledge demo_world 1 1700000100 ''AG-1'' 4 ''asset-1'' ''real_estate'' ''flat''
     (100000 * 10 ^ 18) ''Qm'' = Inr demo_pledged \<and>
   (0 :: nat) < 1700000100 \<and>
   roles_pm (manager demo_pledged) OPERATOR_ROLE 1 \<and>
   createPledge demo_pledged 1 1700000300 ''AG-1'' 6 ''asset-2'' ''stocks'' ''shares''
     (5 * 10 ^ 18) ''Qn'' = Inl (Revert ''Agreement already exists'') \<and>
   manager_after demo_pledged 1 1700000300
     (CreatePledge ''AG-1'' 6 ''asset-2'' ''stocks'' ''shares'' (5 * 10 ^ 18) ''Qn'') = demo_pledged"
proof -
  have auth: "roles_pm (manager demo_pledged) OPERATOR_ROLE 1"
    by (simp add: demo_pledged_def demo_world_eval)
  have time: "(0 :: nat) < 1700000100" by simp
  have c: "(6 :: nat) \<noteq> 0" and v: "(0 :: nat) < 5 * 10 ^ 18" by simp_all
  from createPledge_twice [OF demo_pledged_call time auth c v]
  show ?thesis using demo_pledged_call auth by simp
qed

section \<open>Calls without the role\<close>

text \<open>
  Claim C7. Every role-gated function of the two contracts, called by an account that
  lacks the role its \<^verbatim>\<open>onlyRole\<close> modifier demands, reverts with the missing-role error
  of \<^verbatim>\<open>AccessControl\<close> (the specification's \<open>Unauthorized\<close>) and leaves the whole state
  as it was. On the ledger these are \<^verbatim>\<open>pledgeAsset\<close>, \<^verbatim>\<open>releaseAsset\<close>,
  \<^verbatim>\<open>setDiscountRate\<close>, \<^verbatim>\<open>pause\<close>, \<^verbatim>\<open>unpause\<close>, \<^verbatim>\<open>grantRole\<close> and \<^verbatim>\<open>revokeRole\<close>; on the registry
  \<^verbatim>\<open>createPledge\<close>, \<^verbatim>\<open>payClient\<close>, \<^verbatim>\<open>repayPledge\<close>, \<^verbatim>\<open>setSpreadPercentage\<close>,
  \<^verbatim>\<open>withdrawRevenue\<close>, \<^verbatim>\<open>pause\<close>, \<^verbatim>\<open>unpause\<close> and the role grants and revocations. The
  role check is the first modifier of each, so it comes before every other check.
\<close>

theorem unauthorized_rejected:
  "(token_role c = Some r \<and> \<not> roles s r sender \<longrightarrow>
      token_exec s sender ts c = Inl (MissingRole sender r) \<and> token_after s sender ts c = s) \<and>
   (manager_role mc = Some r \<and> \<not> roles_pm (manager w) r sender \<longrightarrow>
      manager_exec w sender ts mc = Inl (MissingRole sender r) \<and>
      manager_after w sender ts mc = w)"
proof (intro conjI impI)
  assume a: "token_role c = Some r \<and> \<not> roles s r sender"
  then show t: "token_exec s sender ts c = Inl (MissingRole sender r)"
    by (cases c)
      (auto simp: pledgeAsset_def releaseAsset_def setDiscountRate_def pause_def unpause_def
        grantRole_def revokeRole_def)
  then show "token_after s sender ts c = s"
    by (simp add: token_after_def)
next
  assume a: "manager_role mc = Some r \<and> \<not> roles_pm (manager w) r sender"
  then show m: "manager_exec w sender ts mc = Inl (MissingRole sender r)"
    by (cases mc)
      (auto simp: createPledge_def payClient_def repayPledge_def setSpreadPercentage_def
        withdrawRevenue_def pause_pm_def unpause_pm_def grantRole_pm_def revokeRole_pm_def
        grantOperatorRole_def grantFinanceRole_def revokeOperatorRole_def
        revokeFinanceRole_def Let_def)
  then show "manager_after w sender ts mc = w"
    by (simp add: manager_after_def)
qed

theorem unauthorized_rejected_witness:
  "token_role (PledgeAsset ''asset-9'' ''bonds'' ''note'' (10 ^ 18) 9) = Some PLEDGE_MANAGER_ROLE \<and>
   \<not> roles demo_token PLEDGE_MANAGER_ROLE 9 \<and>
   pledgeAsset demo_token 9 1700000100 ''asset-9'' ''bonds'' ''note'' (10 ^ 18) 9 =
     Inl (MissingRole 9 PLEDGE_MANAGER_ROLE) \<and>
   manager_role (PayClient ''AG-1'') = Some FINANCE_ROLE \<and>
   \<not> roles_pm (manager demo_pledged) FINANCE_ROLE 4 \<and>
   payClient demo_pledged 4 ''AG-1'' = Inl (MissingRole 4 FINANCE_ROLE) \<and>
   manager_after demo_pledged 4 1700000200 (PayClient ''AG-1'') = demo_pledged"
proof -
  have t: "\<not> roles demo_token PLEDGE_MANAGER_ROLE 9"
    by (simp add: demo_token_eq RWAToken_constructor_def)
  have m: "\<not> roles_pm (manager demo_pledged) FINANCE_ROLE 4"
    by (simp add: demo_pledged_def demo_world_eval)
  from unauthorized_rejected [where c = "PledgeAsset ''asset-9'' ''bonds'' ''note'' (10 ^ 18) 9"
      and r = PLEDGE_MANAGER_ROLE and s = demo_token and sender = 9 and ts = 1700000100]
    unauthorized_rejected [where mc = "PayClient ''AG-1''" and r = FINANCE_ROLE
      and w = demo_pledged and sender = 4 and ts = 1700000200]
  show ?thesis using t m by simp
qed

section \<open>Failure leaves no trace\<close>

text \<open>
  Claim C8. Every operation is all or nothing: a call that fails, for whatever reason,
  leaves the state of the ledger and of the whole deployment as it was; this is the
  revert of the execution environment, which the model carries as the \<open>Inl\<close> result. In
  particular \<^verbatim>\<open>payClient\<close>, called by a holder of \<^verbatim>\<open>FINANCE_ROLE\<close> on an existing
  agreement in status \<open>ACTIVE\<close> while the registry's USDT balance is below
  \<open>clientPayment\<close>, fails with \<open>Insufficient USDT balance\<close> (the specification's
  \<open>InsufficientLiquidity\<close>): no USDT moves and \<open>totalClientPayments\<close> stays. The
  same holds for a failure deep inside a call: a \<^verbatim>\<open>createPledge\<close> whose asset id the
  ledger rejects fails as a whole, although the registry had written the agreement
  before it called the ledger.
\<close>

theorem failure_changes_nothing:
  "(token_exec s sender ts c = Inl e \<longrightarrow> token_after s sender ts c = s) \<and>
   (ledger_exec w sender ts c = Inl e \<longrightarrow> ledger_after w sender ts c = w) \<and>
   (manager_exec w sender ts mc = Inl e \<longrightarrow> manager_after w sender ts mc = w) \<and>
   (roles_pm (manager w) FINANCE_ROLE sender \<and>
    timestamp (pledgeAgreements (manager w) agrId) \<noteq> 0 \<and>
    status (pledgeAgreements (manager w) agrId) = ACTIVE \<and>
    balances (usdtToken w) (managerAddress w) <
      clientPayment (pledgeAgreements (manager w) agrId) \<longrightarrow>
      payClient w sender agrId = Inl (Revert ''Insufficient USDT balance'') \<and>
      manager_after w sender ts (PayClient agrId) = w \<and>
      usdtToken (manager_after w sender ts (PayClient agrId)) = usdtToken w \<and>
      totalClientPayments (manager (manager_after w sender ts (PayClient agrId))) =
        totalClientPayments (manager w))"
proof (intro conjI impI)
  assume a: "roles_pm (manager w) FINANCE_ROLE sender \<and>
    timestamp (pledgeAgreements (manager w) agrId) \<noteq> 0 \<and>
    status (pledgeAgreements (manager w) agrId) = ACTIVE \<and>
    balances (usdtToken w) (managerAddress w) <
      clientPayment (pledgeAgreements (manager w) agrId)"
  then show p: "payClient w sender agrId = Inl (Revert ''Insufficient USDT balance'')"
    by (simp add: payClient_def Let_def)
  then show same: "manager_after w sender ts (PayClient agrId) = w"
    by (simp add: manager_after_def)
  then show "usdtToken (manager_after w sender ts (PayClient agrId)) = usdtToken w"
    and "totalClientPayments (manager (manager_after w sender ts (PayClient agrId))) =
        totalClientPayments (manager w)"
    by simp_all
qed (simp_all add: token_after_def ledger_after_def manager_after_def)

theorem failure_changes_nothing_witness:
  "roles_pm (manager demo_pledged) FINANCE_ROLE 1 \<and>
   timestamp (pledgeAgreements (manager demo_pledged) ''AG-1'') \<noteq> 0 \<and>
   status (pledgeAgreements (manager demo_pledged) ''AG-1'') = ACTIVE \<and>
   balances (usdtToken demo_pledged) (managerAddress demo_pledged) = 500000 * 10 ^ 6 \<and>
   clientPayment (pledgeAgreements (manager demo_pledged) ''AG-1'') = 59500 * 10 ^ 18 \<and>
   manager_exec demo_pledged 1 1700000200 (PayClient ''AG-1'') =
     Inl (Revert ''Insufficient USDT balance'') \<and>
   manager_after demo_pledged 1 1700000200 (PayClient ''AG-1'') = demo_pledged \<and>
   manager_exec demo_pledged 1 1700000300
     (CreatePledge ''AG-9'' 4 ''asset-1'' ''real_estate'' ''flat'' (100000 * 10 ^ 18) ''Qm'') =
     Inl (Revert ''Asset already pledged'') \<and>
   manager_after demo_pledged 1 1700000300
     (CreatePledge ''AG-9'' 4 ''asset-1'' ''real_estate'' ''flat'' (100000 * 10 ^ 18) ''Qm'') =
     demo_pledged"
proof -
  have r: "roles_pm (manager demo_pledged) FINANCE_ROLE 1"
    by (simp add: demo_pledged_def demo_world_eval)
  have f: "timestamp (pledgeAgreements (manager demo_pledged) ''AG-1'') \<noteq> 0"
    "status (pledgeAgreements (manager demo_pledged) ''AG-1'') = ACTIVE"
    "balances (usdtToken demo_pledged) (managerAddress demo_pledged) = 500000 * 10 ^ 6"
    "clientPayment (pledgeAgreements (manager demo_pledged) ''AG-1'') = 59500 * 10 ^ 18"
    by (simp_all add: demo_pledged_def demo_world_eval)
  have d: "manager_exec demo_pledged 1 1700000300
     (CreatePledge ''AG-9'' 4 ''asset-1'' ''real_estate'' ''flat'' (100000 * 10 ^ 18) ''Qm'') =
     Inl (Revert ''Asset already pledged'')"
    by (simp add: demo_pledged_def demo_world_eval)
  from failure_changes_nothing [where w = demo_pledged and sender = 1 and agrId = "''AG-1''"
      and ts = 1700000200 and mc = "PayClient ''AG-1''"
      and e = "Revert ''Insufficient USDT balance''"]
    failure_changes_nothing [where w = demo_pledged and sender = 1 and ts = 1700000300
      and mc = "CreatePledge ''AG-9'' 4 ''asset-1'' ''real_estate'' ''flat'' (100000 * 10 ^ 18) ''Qm''"
      and e = "Revert ''Asset already pledged''"]
  show ?thesis using r f d by simp
qed

section \<open>Paused contracts\<close>

lemma paused_ledger_fails:
  assumes "paused s"
  shows "\<exists>e. pledgeAsset s sender ts a b d v p = Inl e"
    and "\<exists>e. releaseAsset s sender a h n = Inl e"
    and "\<exists>e. transfer s sender dst n = Inl e"
    and "\<exists>e. transferFrom s sender src dst n = Inl e"
  using assms
  by (auto simp: pledgeAsset_def releaseAsset_def transfer_def transferFrom_def
      erc20_transfer_def erc20_transferFrom_def erc20_transfer_internal_def
      split: sum.splits)

lemma paused_ledger_error:
  assumes "paused s"
  shows "pledgeAsset (s\<lparr>paused := False\<rparr>) sender ts a b d v p = Inr s1 \<Longrightarrow>
           pledgeAsset s sender ts a b d v p = Inl (Revert ''Pausable: paused'')"
    and "releaseAsset (s\<lparr>paused := False\<rparr>) sender a h n = Inr s2 \<Longrightarrow>
           releaseAsset s sender a h n = Inl (Revert ''Pausable: paused'')"
    and "transfer (s\<lparr>paused := False\<rparr>) sender dst n = Inr s3 \<Longrightarrow>
           transfer s sender dst n = Inl (Revert ''Pausable: paused'')"
    and "transferFrom (s\<lparr>paused := False\<rparr>) sender src dst n = Inr s4 \<Longrightarrow>
           transferFrom s sender src dst n = Inl (Revert ''Pausable: paused'')"
proof -
  show "pledgeAsset (s\<lparr>paused := False\<rparr>) sender ts a b d v p = Inr s1 \<Longrightarrow>
           pledgeAsset s sender ts a b d v p = Inl (Revert ''Pausable: paused'')"
    using assms by (elim pledgeAsset_Inr) (simp add: pledgeAsset_def)
  show "releaseAsset (s\<lparr>paused := False\<rparr>) sender a h n = Inr s2 \<Longrightarrow>
           releaseAsset s sender a h n = Inl (Revert ''Pausable: paused'')"
    using assms by (elim releaseAsset_Inr) (simp add: releaseAsset_def)
  show "transfer (s\<lparr>paused := False\<rparr>) sender dst n = Inr s3 \<Longrightarrow>
           transfer s sender dst n = Inl (Revert ''Pausable: paused'')"
    using assms
    by (auto simp: transfer_def erc20_transfer_def erc20_transfer_internal_def
        split: sum.splits if_splits)
  show "transferFrom (s\<lparr>paused := False\<rparr>) sender src dst n = Inr s4 \<Longrightarrow>
           transferFrom s sender src dst n = Inl (Revert ''Pausable: paused'')"
    using assms
    by (auto simp: transferFrom_def erc20_transferFrom_def erc20_transfer_internal_def
        split: sum.splits if_splits)
qed

lemma paused_registry_fails:
  assumes "paused_pm (manager w) \<or> paused (rwaToken w)"
  shows "\<exists>e. createPledge w sender ts agr cl a b d v doc = Inl e"
    and "\<exists>e. purchaseTokens w sender ts agr n pid = Inl e"
proof -
  from paused_ledger_fails(1) [of "rwaToken w" "managerAddress w" ts a b d v "managerAddress w"]
  have "paused (rwaToken w) \<Longrightarrow>
    \<exists>e. pledgeAsset (rwaToken w) (managerAddress w) ts a b d v (managerAddress w) = Inl e" .
  then show "\<exists>e. createPledge w sender ts agr cl a b d v doc = Inl e"
    using assms by (auto simp: createPledge_def Let_def)
  from paused_ledger_fails(3) [of "rwaToken w" "managerAddress w" sender n]
  have "paused (rwaToken w) \<Longrightarrow>
    \<exists>e. transfer (rwaToken w) (managerAddress w) sender n = Inl e" .
  then show "\<exists>e. purchaseTokens w sender ts agr n pid = Inl e"
    using assms by (auto simp: purchaseTokens_def Let_def split: sum.splits)
qed

lemma paused_registry_error:
  assumes p: "paused_pm (manager w) \<or> paused (rwaToken w)"
  shows "createPledge (w\<lparr>manager := (manager w)\<lparr>paused_pm := False\<rparr>,
                          rwaToken := (rwaToken w)\<lparr>paused := False\<rparr>\<rparr>)
             sender ts agr cl a b d v doc = Inr w1 \<Longrightarrow>
           createPledge w sender ts agr cl a b d v doc = Inl (Revert ''Pausable: paused'')"
    and "purchaseTokens (w\<lparr>manager := (manager w)\<lparr>paused_pm := False\<rparr>,
                            rwaToken := (rwaToken w)\<lparr>paused := False\<rparr>\<rparr>)
             sender ts agr n pid = Inr w2 \<Longrightarrow>
           purchaseTokens w sender ts agr n pid = Inl (Revert ''Pausable: paused'')"
proof -
  let ?w0 = "w\<lparr>manager := (manager w)\<lparr>paused_pm := False\<rparr>,
                rwaToken := (rwaToken w)\<lparr>paused := False\<rparr>\<rparr>"
  {
    assume ok: "createPledge ?w0 sender ts agr cl a b d v doc = Inr w1"
    then obtain t where c: "roles_pm (manager w) OPERATOR_ROLE sender" "agr \<noteq> []" "cl \<noteq> 0"
      "0 < v" "timestamp (pledgeAgreements (manager w) agr) = 0"
      "spreadPercentage (manager w) \<le> 100"
      and pl: "pledgeAsset ((rwaToken w)\<lparr>paused := False\<rparr>) (managerAddress w) ts a b d v
                 (managerAddress w) = Inr t"
      by (elim createPledge_Inr) simp
    from ok have ov: "v * discountRate (rwaToken w) \<le> max_uint256"
      "(v * discountRate (rwaToken w)) div 100 * (100 - spreadPercentage (manager w))
         \<le> max_uint256"
      by (auto simp: createPledge_def Let_def split: if_splits sum.splits)
    show "createPledge w sender ts agr cl a b d v doc = Inl (Revert ''Pausable: paused'')"
    proof (cases "paused_pm (manager w)")
      case True
      with c show ?thesis by (simp add: createPledge_def Let_def)
    next
      case False
      with p have lp: "paused (rwaToken w)" by simp
      from paused_ledger_error(1) [OF lp pl]
      have "pledgeAsset (rwaToken w) (managerAddress w) ts a b d v (managerAddress w) =
              Inl (Revert ''Pausable: paused'')" .
      with False c ov show ?thesis by (simp add: createPledge_def Let_def)
    qed
  }
  {
    assume ok: "purchaseTokens ?w0 sender ts agr n pid = Inr w2"
    show "purchaseTokens w sender ts agr n pid = Inl (Revert ''Pausable: paused'')"
    proof (cases "paused_pm (manager w)")
      case True
      then show ?thesis by (simp add: purchaseTokens_def Let_def)
    next
      case False
      with p have lp: "paused (rwaToken w)" by simp
      from ok obtain u t where c: "timestamp (pledgeAgreements (manager w) agr) \<noteq> 0"
        "status (pledgeAgreements (manager w) agr) = ACTIVE" "0 < n"
        "n \<le> balances (erc20 (rwaToken w)) (managerAddress w)" "n * 10 ^ 6 \<le> max_uint256"
        "erc20_transferFrom False (usdtToken w) (managerAddress w) sender (managerAddress w)
           (n * 10 ^ 6) = Inr u"
        and tr: "transfer ((rwaToken w)\<lparr>paused := False\<rparr>) (managerAddress w) sender n = Inr t"
        by (auto simp: purchaseTokens_def Let_def split: if_splits sum.splits)
      from paused_ledger_error(3) [OF lp tr]
      have "transfer (rwaToken w) (managerAddress w) sender n = Inl (Revert ''Pausable: paused'')" .
      with False c show ?thesis by (simp add: purchaseTokens_def Let_def)
    qed
  }
qed


lemma pause_restored:
  "\<not> paused s \<and> roles s PAUSER_ROLE ca \<and> roles s PAUSER_ROLE cb \<longrightarrow>
     pause s ca = Inr (s\<lparr>paused := True\<rparr>) \<and> unpause (s\<lparr>paused := True\<rparr>) cb = Inr s"
  by (cases s) (simp add: pause_def unpause_def)

lemma pause_pm_restored:
  "\<not> paused_pm (manager w) \<and> roles_pm (manager w) DEFAULT_ADMIN_ROLE ca \<and>
   roles_pm (manager w) DEFAULT_ADMIN_ROLE cb \<longrightarrow>
     pause_pm w ca = Inr (w\<lparr>manager := (manager w)\<lparr>paused_pm := True\<rparr>\<rparr>) \<and>
     unpause_pm (w\<lparr>manager := (manager w)\<lparr>paused_pm := True\<rparr>\<rparr>) cb = Inr w"
  by (cases w, cases "manager w") (simp add: pause_pm_def unpause_pm_def Let_def)

text \<open>
  Claim C9. While the ledger is paused, \<^verbatim>\<open>pledgeAsset\<close>, \<^verbatim>\<open>releaseAsset\<close>, \<^verbatim>\<open>transfer\<close> and
  \<^verbatim>\<open>transferFrom\<close> never succeed, whoever calls them with whatever arguments, and leave
  the state as it was; so do \<^verbatim>\<open>createPledge\<close> and \<^verbatim>\<open>purchaseTokens\<close> of the registry while
  the registry, or the ledger they call into, is paused. A call that would have
  succeeded had nothing been paused fails with \<open>Pausable: paused\<close> (the specification's
  \<open>SystemPaused\<close>). Pausing a contract and unpausing it gives back the very state it was
  in, so after the unpause every operation behaves as if the pause had never happened.
\<close>

theorem paused_operations_rejected:
  "(paused s \<longrightarrow>
      (\<exists>e. pledgeAsset s sender ts a b d v p = Inl e) \<and>
      (\<exists>e. releaseAsset s sender a h n = Inl e) \<and>
      (\<exists>e. transfer s sender dst n = Inl e) \<and>
      (\<exists>e. transferFrom s sender src dst n = Inl e) \<and>
      token_after s sender ts (PledgeAsset a b d v p) = s \<and>
      token_after s sender ts (ReleaseAsset a h n) = s \<and>
      token_after s sender ts (Transfer dst n) = s \<and>
      token_after s sender ts (TransferFrom src dst n) = s \<and>
      (pledgeAsset (s\<lparr>paused := False\<rparr>) sender ts a b d v p = Inr sa \<longrightarrow>
         pledgeAsset s sender ts a b d v p = Inl (Revert ''Pausable: paused'')) \<and>
      (releaseAsset (s\<lparr>paused := False\<rparr>) sender a h n = Inr sb \<longrightarrow>
         releaseAsset s sender a h n = Inl (Revert ''Pausable: paused'')) \<and>
      (transfer (s\<lparr>paused := False\<rparr>) sender dst n = Inr sc \<longrightarrow>
         transfer s sender dst n = Inl (Revert ''Pausable: paused'')) \<and>
      (transferFrom (s\<lparr>paused := False\<rparr>) sender src dst n = Inr sd \<longrightarrow>
         transferFrom s sender src dst n = Inl (Revert ''Pausable: paused''))) \<and>
   (paused_pm (manager w) \<or> paused (rwaToken w) \<longrightarrow>
      (\<exists>e. createPledge w caller ts agr cl ra rb rd rv doc = Inl e) \<and>
      (\<exists>e. purchaseTokens w caller ts agr rn pid = Inl e) \<and>
      manager_after w caller ts (CreatePledge agr cl ra rb rd rv doc) = w \<and>
      manager_after w caller ts (PurchaseTokens agr rn pid) = w \<and>
      (createPledge (w\<lparr>manager := (manager w)\<lparr>paused_pm := False\<rparr>,
                       rwaToken := (rwaToken w)\<lparr>paused := False\<rparr>\<rparr>)
          caller ts agr cl ra rb rd rv doc = Inr wa \<longrightarrow>
         createPledge w caller ts agr cl ra rb rd rv doc = Inl (Revert ''Pausable: paused'')) \<and>
      (purchaseTokens (w\<lparr>manager := (manager w)\<lparr>paused_pm := False\<rparr>,
                         rwaToken := (rwaToken w)\<lparr>paused := False\<rparr>\<rparr>)
          caller ts agr rn pid = Inr wb \<longrightarrow>
         purchaseTokens w caller ts agr rn pid = Inl (Revert ''Pausable: paused''))) \<and>
   (\<not> paused s \<and> roles s PAUSER_ROLE ca \<and> roles s PAUSER_ROLE cb \<longrightarrow>
      pause s ca = Inr (s\<lparr>paused := True\<rparr>) \<and> unpause (s\<lparr>paused := True\<rparr>) cb = Inr s) \<and>
   (\<not> paused_pm (manager w) \<and> roles_pm (manager w) DEFAULT_ADMIN_ROLE ca \<and>
    roles_pm (manager w) DEFAULT_ADMIN_ROLE cb \<longrightarrow>
      pause_pm w ca = Inr (w\<lparr>manager := (manager w)\<lparr>paused_pm := True\<rparr>\<rparr>) \<and>
      unpause_pm (w\<lparr>manager := (manager w)\<lparr>paused_pm := True\<rparr>\<rparr>) cb = Inr w)"
proof (intro conjI)
  show "paused s \<longrightarrow>
      (\<exists>e. pledgeAsset s sender ts a b d v p = Inl e) \<and>
      (\<exists>e. releaseAsset s sender a h n = Inl e) \<and>
      (\<exists>e. transfer s sender dst n = Inl e) \<and>
      (\<exists>e. transferFrom s sender src dst n = Inl e) \<and>
      token_after s sender ts (PledgeAsset a b d v p) = s \<and>
      token_after s sender ts (ReleaseAsset a h n) = s \<and>
      token_after s sender ts (Transfer dst n) = s \<and>
      token_after s sender ts (TransferFrom src dst n) = s \<and>
      (pledgeAsset (s\<lparr>paused := False\<rparr>) sender ts a b d v p = Inr sa \<longrightarrow>
         pledgeAsset s sender ts a b d v p = Inl (Revert ''Pausable: paused'')) \<and>
      (releaseAsset (s\<lparr>paused := False\<rparr>) sender a h n = Inr sb \<longrightarrow>
         releaseAsset s sender a h n = Inl (Revert ''Pausable: paused'')) \<and>
      (transfer (s\<lparr>paused := False\<rparr>) sender dst n = Inr sc \<longrightarrow>
         transfer s sender dst n = Inl (Revert ''Pausable: paused'')) \<and>
      (transferFrom (s\<lparr>paused := False\<rparr>) sender src dst n = Inr sd \<longrightarrow>
         transferFrom s sender src dst n = Inl (Revert ''Pausable: paused''))"
  proof
    assume ps: "paused s"
    have f: "\<exists>e. pledgeAsset s sender ts a b d v p = Inl e"
      "\<exists>e. releaseAsset s sender a h n = Inl e"
      "\<exists>e. transfer s sender dst n = Inl e"
      "\<exists>e. transferFrom s sender src dst n = Inl e"
      by (rule paused_ledger_fails [OF ps])+
    from f have g: "token_after s sender ts (PledgeAsset a b d v p) = s"
      "token_after s sender ts (ReleaseAsset a h n) = s"
      "token_after s sender ts (Transfer dst n) = s"
      "token_after s sender ts (TransferFrom src dst n) = s"
      by (auto simp: token_after_def)
    from f g
    show "(\<exists>e. pledgeAsset s sender ts a b d v p = Inl e) \<and>
      (\<exists>e. releaseAsset s sender a h n = Inl e) \<and>
      (\<exists>e. transfer s sender dst n = Inl e) \<and>
      (\<exists>e. transferFrom s sender src dst n = Inl e) \<and>
      token_after s sender ts (PledgeAsset a b d v p) = s \<and>
      token_after s sender ts (ReleaseAsset a h n) = s \<and>
      token_after s sender ts (Transfer dst n) = s \<and>
      token_after s sender ts (TransferFrom src dst n) = s \<and>
      (pledgeAsset (s\<lparr>paused := False\<rparr>) sender ts a b d v p = Inr sa \<longrightarrow>
         pledgeAsset s sender ts a b d v p = Inl (Revert ''Pausable: paused'')) \<and>
      (releaseAsset (s\<lparr>paused := False\<rparr>) sender a h n = Inr sb \<longrightarrow>
         releaseAsset s sender a h n = Inl (Revert ''Pausable: paused'')) \<and>
      (transfer (s\<lparr>paused := False\<rparr>) sender dst n = Inr sc \<longrightarrow>
         transfer s sender dst n = Inl (Revert ''Pausable: paused'')) \<and>
      (transferFrom (s\<lparr>paused := False\<rparr>) sender src dst n = Inr sd \<longrightarrow>
         transferFrom s sender src dst n = Inl (Revert ''Pausable: paused''))"
      by (intro conjI impI) (assumption | erule paused_ledger_error [OF ps])+
  qed
  show "paused_pm (manager w) \<or> paused (rwaToken w) \<longrightarrow>
      (\<exists>e. createPledge w caller ts agr cl ra rb rd rv doc = Inl e) \<and>
      (\<exists>e. purchaseTokens w caller ts agr rn pid = Inl e) \<and>
      manager_after w caller ts (CreatePledge agr cl ra rb rd rv doc) = w \<and>
      manager_after w caller ts (PurchaseTokens agr rn pid) = w \<and>
      (createPledge (w\<lparr>manager := (manager w)\<lparr>paused_pm := False\<rparr>,
                       rwaToken := (rwaToken w)\<lparr>paused := False\<rparr>\<rparr>)
          caller ts agr cl ra rb rd rv doc = Inr wa \<longrightarrow>
         createPledge w caller ts agr cl ra rb rd rv doc = Inl (Revert ''Pausable: paused'')) \<and>
      (purchaseTokens (w\<lparr>manager := (manager w)\<lparr>paused_pm := False\<rparr>,
                         rwaToken := (rwaToken w)\<lparr>paused := False\<rparr>\<rparr>)
          caller ts agr rn pid = Inr wb \<longrightarrow>
         purchaseTokens w caller ts agr rn pid = Inl (Revert ''Pausable: paused''))"
  proof
    assume pw: "paused_pm (manager w) \<or> paused (rwaToken w)"
    have f: "\<exists>e. createPledge w caller ts agr cl ra rb rd rv doc = Inl e"
      "\<exists>e. purchaseTokens w caller ts agr rn pid = Inl e"
      by (rule paused_registry_fails [OF pw])+
    from f have g: "manager_after w caller ts (CreatePledge agr cl ra rb rd rv doc) = w"
      "manager_after w caller ts (PurchaseTokens agr rn pid) = w"
      by (auto simp: manager_after_def)
    from f g
    show "(\<exists>e. createPledge w caller ts agr cl ra rb rd rv doc = Inl e) \<and>
      (\<exists>e. purchaseTokens w caller ts agr rn pid = Inl e) \<and>
      manager_after w caller ts (CreatePledge agr cl ra rb rd rv doc) = w \<and>
      manager_after w caller ts (PurchaseTokens agr rn pid) = w \<and>
      (createPledge (w\<lparr>manager := (manager w)\<lparr>paused_pm := False\<rparr>,
                       rwaToken := (rwaToken w)\<lparr>paused := False\<rparr>\<rparr>)
          caller ts agr cl ra rb rd rv doc = Inr wa \<longrightarrow>
         createPledge w caller ts agr cl ra rb rd rv doc = Inl (Revert ''Pausable: paused'')) \<and>
      (purchaseTokens (w\<lparr>manager := (manager w)\<lparr>paused_pm := False\<rparr>,
                         rwaToken := (rwaToken w)\<lparr>paused := False\<rparr>\<rparr>)
          caller ts agr rn pid = Inr wb \<longrightarrow>
         purchaseTokens w caller ts agr rn pid = Inl (Revert ''Pausable: paused''))"
      by (intro conjI impI) (assumption | erule paused_registry_error [OF pw])+
  qed
qed (rule pause_restored pause_pm_restored)+


lemma unpaused_id: "\<not> paused s \<Longrightarrow> s\<lparr>paused := False\<rparr> = s"
  by (cases s) simp

lemma world_unpaused_id:
  "\<not> paused_pm (manager w) \<Longrightarrow> \<not> paused (rwaToken w) \<Longrightarrow>
     w\<lparr>manager := (manager w)\<lparr>paused_pm := False\<rparr>,
       rwaToken := (rwaToken w)\<lparr>paused := False\<rparr>\<rparr> = w"
  by (cases w, cases "manager w", cases "rwaToken w") simp

lemmas demo_approved_eval =
  demo_approved_def demo_asset_def demo_eval approve_def erc20_approve_def
  erc20_approve_internal_def transfer_def transferFrom_def erc20_transfer_def
  erc20_transferFrom_def erc20_spendAllowance_def erc20_transfer_internal_def

lemma demo_approved_fields:
  "\<not> paused demo_approved" "roles demo_approved PAUSER_ROLE 1"
  by (simp_all add: demo_approved_eval)

lemma demo_approved_paused_eq: "demo_approved_paused = demo_approved\<lparr>paused := True\<rparr>"
  using demo_approved_fields
  by (simp add: demo_approved_paused_def token_after_def pause_def)

lemma demo_approved_unpaused: "demo_approved_paused\<lparr>paused := False\<rparr> = demo_approved"
  using unpaused_id [OF demo_approved_fields(1)] by (simp add: demo_approved_paused_eq)

lemma demo_approved_calls:
  "pledgeAsset demo_approved 1 1700000200 ''asset-2'' ''stocks'' ''shares'' (100 * 10 ^ 18) 5 =
     Inr (token_after demo_approved 1 1700000200
            (PledgeAsset ''asset-2'' ''stocks'' ''shares'' (100 * 10 ^ 18) 5))"
  "releaseAsset demo_approved 1 ''asset-1'' 5 70000 =
     Inr (token_after demo_approved 1 1700000200 (ReleaseAsset ''asset-1'' 5 70000))"
  "transfer demo_approved 5 6 100 =
     Inr (token_after demo_approved 5 1700000200 (Transfer 6 100))"
  "transferFrom demo_approved 6 5 7 200 =
     Inr (token_after demo_approved 6 1700000200 (TransferFrom 5 7 200))"
  by (simp_all add: token_after_def demo_approved_eval)

lemma demo_pledged_fields:
  "\<not> paused_pm (manager demo_pledged)" "roles_pm (manager demo_pledged) DEFAULT_ADMIN_ROLE 1"
  "\<not> paused (rwaToken demo_pledged)" "roles (rwaToken demo_pledged) PAUSER_ROLE 1"
  by (simp_all add: demo_pledged_def demo_world_eval)

lemma demo_paused_pm_eq:
  "demo_paused_pm = demo_pledged\<lparr>manager := (manager demo_pledged)\<lparr>paused_pm := True\<rparr>\<rparr>"
  using demo_pledged_fields(1,2)
  by (simp add: demo_paused_pm_def manager_after_def pause_pm_def Let_def)

lemma demo_paused_pm_unpaused:
  "demo_paused_pm\<lparr>manager := (manager demo_paused_pm)\<lparr>paused_pm := False\<rparr>,
     rwaToken := (rwaToken demo_paused_pm)\<lparr>paused := False\<rparr>\<rparr> = demo_pledged"
  using world_unpaused_id [OF demo_pledged_fields(1,3)] by (simp add: demo_paused_pm_eq)

lemma demo_pledged_ledger_paused_eq:
  "demo_pledged_ledger_paused =
     demo_pledged\<lparr>rwaToken := (rwaToken demo_pledged)\<lparr>paused := True\<rparr>\<rparr>"
  using demo_pledged_fields(3,4)
  by (simp add: demo_pledged_ledger_paused_def ledger_after_def ledger_exec_def pause_def)

lemma demo_pledged_ledger_paused_unpaused:
  "demo_pledged_ledger_paused\<lparr>
     manager := (manager demo_pledged_ledger_paused)\<lparr>paused_pm := False\<rparr>,
     rwaToken := (rwaToken demo_pledged_ledger_paused)\<lparr>paused := False\<rparr>\<rparr> = demo_pledged"
  using world_unpaused_id [OF demo_pledged_fields(1,3)]
  by (simp add: demo_pledged_ledger_paused_eq)

lemma demo_pledged_again_call:
  "createPledge demo_pledged 1 1700000300 ''AG-3'' 4 ''asset-3'' ''bonds'' ''note'' (10 ^ 18) ''Qo'' =
     Inr (manager_after demo_pledged 1 1700000300
            (CreatePledge ''AG-3'' 4 ''asset-3'' ''bonds'' ''note'' (10 ^ 18) ''Qo''))"
  by (simp add: demo_pledged_def demo_world_eval)


theorem paused_operations_rejected_witness:
  "paused demo_approved_paused \<and>
   pledgeAsset demo_approved 1 1700000200 ''asset-2'' ''stocks'' ''shares'' (100 * 10 ^ 18) 5 =
     Inr (token_after demo_approved 1 1700000200
            (PledgeAsset ''asset-2'' ''stocks'' ''shares'' (100 * 10 ^ 18) 5)) \<and>
   pledgeAsset demo_approved_paused 1 1700000200 ''asset-2'' ''stocks'' ''shares''
     (100 * 10 ^ 18) 5 = Inl (Revert ''Pausable: paused'') \<and>
   releaseAsset demo_approved 1 ''asset-1'' 5 70000 =
     Inr (token_after demo_approved 1 1700000200 (ReleaseAsset ''asset-1'' 5 70000)) \<and>
   releaseAsset demo_approved_paused 1 ''asset-1'' 5 70000 = Inl (Revert ''Pausable: paused'') \<and>
   transfer demo_approved 5 6 100 =
     Inr (token_after demo_approved 5 1700000200 (Transfer 6 100)) \<and>
   transfer demo_approved_paused 5 6 100 = Inl (Revert ''Pausable: paused'') \<and>
   token_after demo_approved_paused 5 1700000200 (Transfer 6 100) = demo_approved_paused \<and>
   transferFrom demo_approved 6 5 7 200 =
     Inr (token_after demo_approved 6 1700000200 (TransferFrom 5 7 200)) \<and>
   transferFrom demo_approved_paused 6 5 7 200 = Inl (Revert ''Pausable: paused'') \<and>
   paused_pm (manager demo_paused_pm) \<and> \<not> paused (rwaToken demo_paused_pm) \<and>
   createPledge demo_pledged 1 1700000300 ''AG-3'' 4 ''asset-3'' ''bonds'' ''note'' (10 ^ 18) ''Qo'' =
     Inr (manager_after demo_pledged 1 1700000300
            (CreatePledge ''AG-3'' 4 ''asset-3'' ''bonds'' ''note'' (10 ^ 18) ''Qo'')) \<and>
   createPledge demo_paused_pm 1 1700000300 ''AG-3'' 4 ''asset-3'' ''bonds'' ''note'' (10 ^ 18)
     ''Qo'' = Inl (Revert ''Pausable: paused'') \<and>
   purchaseTokens demo_pledged 3 1700000200 ''AG-1'' 1000 ''P-1'' = Inr demo_bought \<and>
   purchaseTokens demo_paused_pm 3 1700000200 ''AG-1'' 1000 ''P-1'' =
     Inl (Revert ''Pausable: paused'') \<and>
   paused (rwaToken demo_pledged_ledger_paused) \<and>
   \<not> paused_pm (manager demo_pledged_ledger_paused) \<and>
   createPledge demo_pledged_ledger_paused 1 1700000300 ''AG-3'' 4 ''asset-3'' ''bonds'' ''note''
     (10 ^ 18) ''Qo'' = Inl (Revert ''Pausable: paused'') \<and>
   purchaseTokens demo_pledged_ledger_paused 3 1700000200 ''AG-1'' 1000 ''P-1'' =
     Inl (Revert ''Pausable: paused'') \<and>
   manager_after demo_pledged_ledger_paused 3 1700000200 (PurchaseTokens ''AG-1'' 1000 ''P-1'') =
     demo_pledged_ledger_paused \<and>
   pause demo_approved 1 = Inr demo_approved_paused \<and>
   unpause demo_approved_paused 1 = Inr demo_approved \<and>
   pause_pm demo_pledged 1 = Inr demo_paused_pm \<and>
   unpause_pm demo_paused_pm 1 = Inr demo_pledged"
proof -
  have ps: "paused demo_approved_paused" by (simp add: demo_approved_paused_eq)
  have pm: "paused_pm (manager demo_paused_pm)" "\<not> paused (rwaToken demo_paused_pm)"
    using demo_pledged_fields(3) by (simp_all add: demo_paused_pm_eq)
  have pl: "paused (rwaToken demo_pledged_ledger_paused)"
    "\<not> paused_pm (manager demo_pledged_ledger_paused)"
    using demo_pledged_fields(1) by (simp_all add: demo_pledged_ledger_paused_eq)
  note ledger = paused_operations_rejected [where s = demo_approved_paused,
      THEN conjunct1, rule_format, OF ps]
  have l1: "pledgeAsset demo_approved_paused 1 1700000200 ''asset-2'' ''stocks'' ''shares''
     (100 * 10 ^ 18) 5 = Inl (Revert ''Pausable: paused'')"
    using ledger [THEN conjunct2, THEN conjunct2, THEN conjunct2, THEN conjunct2,
        THEN conjunct2, THEN conjunct2, THEN conjunct2, THEN conjunct2, THEN conjunct1,
        rule_format, OF demo_approved_calls(1) [folded demo_approved_unpaused]] .
  have l2: "releaseAsset demo_approved_paused 1 ''asset-1'' 5 70000 =
      Inl (Revert ''Pausable: paused'')"
    using ledger [THEN conjunct2, THEN conjunct2, THEN conjunct2, THEN conjunct2,
        THEN conjunct2, THEN conjunct2, THEN conjunct2, THEN conjunct2, THEN conjunct2,
        THEN conjunct1, rule_format, OF demo_approved_calls(2) [folded demo_approved_unpaused]] .
  have l3: "transfer demo_approved_paused 5 6 100 = Inl (Revert ''Pausable: paused'')"
    using ledger [THEN conjunct2, THEN conjunct2, THEN conjunct2, THEN conjunct2,
        THEN conjunct2, THEN conjunct2, THEN conjunct2, THEN conjunct2, THEN conjunct2,
        THEN conjunct2, THEN conjunct1, rule_format,
        OF demo_approved_calls(3) [folded demo_approved_unpaused]] .
  have l4: "transferFrom demo_approved_paused 6 5 7 200 = Inl (Revert ''Pausable: paused'')"
    using ledger [THEN conjunct2, THEN conjunct2, THEN conjunct2, THEN conjunct2,
        THEN conjunct2, THEN conjunct2, THEN conjunct2, THEN conjunct2, THEN conjunct2,
        THEN conjunct2, THEN conjunct2, rule_format,
        OF demo_approved_calls(4) [folded demo_approved_unpaused]] .
  have l5: "token_after demo_approved_paused 5 1700000200 (Transfer 6 100) = demo_approved_paused"
    using ledger [THEN conjunct2, THEN conjunct2, THEN conjunct2, THEN conjunct2,
        THEN conjunct2, THEN conjunct2, THEN conjunct1] .
  note registry = paused_operations_rejected [where w = demo_paused_pm,
      THEN conjunct2, THEN conjunct1, rule_format, OF disjI1, OF pm(1)]
  have r1: "createPledge demo_paused_pm 1 1700000300 ''AG-3'' 4 ''asset-3'' ''bonds'' ''note''
      (10 ^ 18) ''Qo'' = Inl (Revert ''Pausable: paused'')"
    using registry [THEN conjunct2, THEN conjunct2, THEN conjunct2, THEN conjunct2,
        THEN conjunct1, rule_format, OF demo_pledged_again_call [folded demo_paused_pm_unpaused]] .
  have r2: "purchaseTokens demo_paused_pm 3 1700000200 ''AG-1'' 1000 ''P-1'' =
      Inl (Revert ''Pausable: paused'')"
    using registry [THEN conjunct2, THEN conjunct2, THEN conjunct2, THEN conjunct2,
        THEN conjunct2, rule_format, OF demo_bought_call [folded demo_paused_pm_unpaused]] .
  note through = paused_operations_rejected [where w = demo_pledged_ledger_paused,
      THEN conjunct2, THEN conjunct1, rule_format, OF disjI2, OF pl(1)]
  have t1: "createPledge demo_pledged_ledger_paused 1 1700000300 ''AG-3'' 4 ''asset-3'' ''bonds''
      ''note'' (10 ^ 18) ''Qo'' = Inl (Revert ''Pausable: paused'')"
    using through [THEN conjunct2, THEN conjunct2, THEN conjunct2, THEN conjunct2,
        THEN conjunct1, rule_format,
        OF demo_pledged_again_call [folded demo_pledged_ledger_paused_unpaused]] .
  have t2: "purchaseTokens demo_pledged_ledger_paused 3 1700000200 ''AG-1'' 1000 ''P-1'' =
      Inl (Revert ''Pausable: paused'')"
    using through [THEN conjunct2, THEN conjunct2, THEN conjunct2, THEN conjunct2,
        THEN conjunct2, rule_format,
        OF demo_bought_call [folded demo_pledged_ledger_paused_unpaused]] .
  have t3: "manager_after demo_pledged_ledger_paused 3 1700000200
      (PurchaseTokens ''AG-1'' 1000 ''P-1'') = demo_pledged_ledger_paused"
    using through [THEN conjunct2, THEN conjunct2, THEN conjunct2, THEN conjunct1] .
  have u: "pause demo_approved 1 = Inr demo_approved_paused"
    "unpause demo_approved_paused 1 = Inr demo_approved"
    using paused_operations_rejected [where s = demo_approved and ca = 1 and cb = 1,
        THEN conjunct2, THEN conjunct2, THEN conjunct1] demo_approved_fields
    by (simp_all add: demo_approved_paused_eq)
  have um: "pause_pm demo_pledged 1 = Inr demo_paused_pm"
    "unpause_pm demo_paused_pm 1 = Inr demo_pledged"
    using paused_operations_rejected [where w = demo_pledged and ca = 1 and cb = 1,
        THEN conjunct2, THEN conjunct2, THEN conjunct2] demo_pledged_fields(1,2)
    by (simp_all add: demo_paused_pm_eq)
  show ?thesis
    using ps pm pl l1 l2 l3 l4 l5 r1 r2 t1 t2 t3 u um demo_approved_calls demo_pledged_again_call
      demo_bought_call
    by (intro conjI)
qed

section \<open>Paying the client twice\<close>

lemma payClient_ok:
  assumes role: "roles_pm (manager w) FINANCE_ROLE c"
    and found: "timestamp (pledgeAgreements (manager w) agrId) \<noteq> 0"
    and active: "status (pledgeAgreements (manager w) agrId) = ACTIVE"
    and funds: "clientPayment (pledgeAgreements (manager w) agrId)
                  \<le> balances (usdtToken w) (managerAddress w)"
    and addr: "managerAddress w \<noteq> 0" "client (pledgeAgreements (manager w) agrId) \<noteq> 0"
      "client (pledgeAgreements (manager w) agrId) \<noteq> managerAddress w"
    and room: "balances (usdtToken w) (client (pledgeAgreements (manager w) agrId)) +
                 clientPayment (pledgeAgreements (manager w) agrId) \<le> max_uint256"
    and acc: "totalClientPayments (manager w) +
                 clientPayment (pledgeAgreements (manager w) agrId) \<le> max_uint256"
  shows "payClient w c agrId =
     Inr (w\<lparr>usdtToken := (usdtToken w)\<lparr>balances := (balances (usdtToken w))
               (managerAddress w := balances (usdtToken w) (managerAddress w) -
                  clientPayment (pledgeAgreements (manager w) agrId),
                client (pledgeAgreements (manager w) agrId) :=
                  balances (usdtToken w) (client (pledgeAgreements (manager w) agrId)) +
                  clientPayment (pledgeAgreements (manager w) agrId))\<rparr>,
             manager := (manager w)\<lparr>
               totalClientPayments := totalClientPayments (manager w) +
                 clientPayment (pledgeAgreements (manager w) agrId),
               events_pm := events_pm (manager w) @
                 [ClientPaid agrId (client (pledgeAgreements (manager w) agrId))
                    (clientPayment (pledgeAgreements (manager w) agrId))]\<rparr>\<rparr>)"
proof -
  have nowrap: "unchecked_add (balances (usdtToken w) (client (pledgeAgreements (manager w) agrId)))
      (clientPayment (pledgeAgreements (manager w) agrId)) =
      balances (usdtToken w) (client (pledgeAgreements (manager w) agrId)) +
      clientPayment (pledgeAgreements (manager w) agrId)"
    by (rule unchecked_add_nowrap [OF room])
  show ?thesis
    using role found active funds addr acc
    by (simp add: payClient_def erc20_transfer_def erc20_transfer_internal_def Let_def nowrap)
qed

text \<open>
  Claim C10. \<^verbatim>\<open>payClient\<close> changes the registry's \<open>totalClientPayments\<close> and its event log
  and nothing else of the registry: no field of any \<^verbatim>\<open>PledgeAgreement\<close>, and there is no
  paid flag to set. So for an agreement in status \<open>ACTIVE\<close>, two consecutive
  \<^verbatim>\<open>payClient\<close> calls by holders of \<^verbatim>\<open>FINANCE_ROLE\<close> both succeed when the registry's USDT
  balance covers both payments: each moves \<open>clientPayment\<close> from the registry to the
  client and adds \<open>clientPayment\<close> to \<open>totalClientPayments\<close>. (The client is neither
  \<^verbatim>\<open>address(0)\<close> nor the registry itself, and neither the client's balance nor the
  accumulator leaves the \<^verbatim>\<open>uint256\<close> range.)
\<close>

theorem payClient_twice:
  assumes role: "roles_pm (manager w) FINANCE_ROLE c1" "roles_pm (manager w) FINANCE_ROLE c2"
    and found: "timestamp (pledgeAgreements (manager w) agrId) \<noteq> 0"
    and active: "status (pledgeAgreements (manager w) agrId) = ACTIVE"
    and funds: "2 * clientPayment (pledgeAgreements (manager w) agrId)
                  \<le> balances (usdtToken w) (managerAddress w)"
    and addr: "managerAddress w \<noteq> 0" "client (pledgeAgreements (manager w) agrId) \<noteq> 0"
      "client (pledgeAgreements (manager w) agrId) \<noteq> managerAddress w"
    and room: "balances (usdtToken w) (client (pledgeAgreements (manager w) agrId)) +
                 2 * clientPayment (pledgeAgreements (manager w) agrId) \<le> max_uint256"
    and acc: "totalClientPayments (manager w) +
                 2 * clientPayment (pledgeAgreements (manager w) agrId) \<le> max_uint256"
  shows "\<exists>w1 w2.
     payClient w c1 agrId = Inr w1 \<and> payClient w1 c2 agrId = Inr w2 \<and>
     manager w1 = (manager w)\<lparr>
       totalClientPayments := totalClientPayments (manager w) +
         clientPayment (pledgeAgreements (manager w) agrId),
       events_pm := events_pm (manager w) @
         [ClientPaid agrId (client (pledgeAgreements (manager w) agrId))
            (clientPayment (pledgeAgreements (manager w) agrId))]\<rparr> \<and>
     manager w2 = (manager w1)\<lparr>
       totalClientPayments := totalClientPayments (manager w1) +
         clientPayment (pledgeAgreements (manager w) agrId),
       events_pm := events_pm (manager w1) @
         [ClientPaid agrId (client (pledgeAgreements (manager w) agrId))
            (clientPayment (pledgeAgreements (manager w) agrId))]\<rparr> \<and>
     pledgeAgreements (manager w1) = pledgeAgreements (manager w) \<and>
     pledgeAgreements (manager w2) = pledgeAgreements (manager w) \<and>
     rwaToken w2 = rwaToken w \<and>
     totalClientPayments (manager w2) = totalClientPayments (manager w) +
       2 * clientPayment (pledgeAgreements (manager w) agrId) \<and>
     balances (usdtToken w1) (client (pledgeAgreements (manager w) agrId)) =
       balances (usdtToken w) (client (pledgeAgreements (manager w) agrId)) +
       clientPayment (pledgeAgreements (manager w) agrId) \<and>
     balances (usdtToken w2) (client (pledgeAgreements (manager w) agrId)) =
       balances (usdtToken w) (client (pledgeAgreements (manager w) agrId)) +
       2 * clientPayment (pledgeAgreements (manager w) agrId) \<and>
     balances (usdtToken w2) (managerAddress w) + 
       2 * clientPayment (pledgeAgreements (manager w) agrId) =
       balances (usdtToken w) (managerAddress w)"
proof -
  let ?p = "pledgeAgreements (manager w) agrId"
  let ?cp = "clientPayment ?p"
  let ?w1 = "w\<lparr>usdtToken := (usdtToken w)\<lparr>balances := (balances (usdtToken w))
               (managerAddress w := balances (usdtToken w) (managerAddress w) - ?cp,
                client ?p := balances (usdtToken w) (client ?p) + ?cp)\<rparr>,
             manager := (manager w)\<lparr>
               totalClientPayments := totalClientPayments (manager w) + ?cp,
               events_pm := events_pm (manager w) @ [ClientPaid agrId (client ?p) ?cp]\<rparr>\<rparr>"
  have first: "payClient w c1 agrId = Inr ?w1"
    using role(1) found active funds addr room acc by (intro payClient_ok) simp_all
  have same: "pledgeAgreements (manager ?w1) agrId = ?p" by simp
  let ?w2 = "?w1\<lparr>usdtToken := (usdtToken ?w1)\<lparr>balances := (balances (usdtToken ?w1))
               (managerAddress ?w1 := balances (usdtToken ?w1) (managerAddress ?w1) - ?cp,
                client ?p := balances (usdtToken ?w1) (client ?p) + ?cp)\<rparr>,
             manager := (manager ?w1)\<lparr>
               totalClientPayments := totalClientPayments (manager ?w1) + ?cp,
               events_pm := events_pm (manager ?w1) @ [ClientPaid agrId (client ?p) ?cp]\<rparr>\<rparr>"
  have "payClient ?w1 c2 agrId =
     Inr (?w1\<lparr>usdtToken := (usdtToken ?w1)\<lparr>balances := (balances (usdtToken ?w1))
               (managerAddress ?w1 := balances (usdtToken ?w1) (managerAddress ?w1) -
                  clientPayment (pledgeAgreements (manager ?w1) agrId),
                client (pledgeAgreements (manager ?w1) agrId) :=
                  balances (usdtToken ?w1) (client (pledgeAgreements (manager ?w1) agrId)) +
                  clientPayment (pledgeAgreements (manager ?w1) agrId))\<rparr>,
             manager := (manager ?w1)\<lparr>
               totalClientPayments := totalClientPayments (manager ?w1) +
                 clientPayment (pledgeAgreements (manager ?w1) agrId),
               events_pm := events_pm (manager ?w1) @
                 [ClientPaid agrId (client (pledgeAgreements (manager ?w1) agrId))
                    (clientPayment (pledgeAgreements (manager ?w1) agrId))]\<rparr>\<rparr>)"
    using role(2) found active funds addr room acc by (intro payClient_ok) simp_all
  then have second: "payClient ?w1 c2 agrId = Inr ?w2"
    by (simp only: same)
  have facts: "manager ?w1 = (manager w)\<lparr>
       totalClientPayments := totalClientPayments (manager w) + ?cp,
       events_pm := events_pm (manager w) @ [ClientPaid agrId (client ?p) ?cp]\<rparr> \<and>
     manager ?w2 = (manager ?w1)\<lparr>
       totalClientPayments := totalClientPayments (manager ?w1) + ?cp,
       events_pm := events_pm (manager ?w1) @ [ClientPaid agrId (client ?p) ?cp]\<rparr> \<and>
     pledgeAgreements (manager ?w1) = pledgeAgreements (manager w) \<and>
     pledgeAgreements (manager ?w2) = pledgeAgreements (manager w) \<and>
     rwaToken ?w2 = rwaToken w \<and>
     totalClientPayments (manager ?w2) = totalClientPayments (manager w) + 2 * ?cp \<and>
     balances (usdtToken ?w1) (client ?p) = balances (usdtToken w) (client ?p) + ?cp \<and>
     balances (usdtToken ?w2) (client ?p) = balances (usdtToken w) (client ?p) + 2 * ?cp \<and>
     balances (usdtToken ?w2) (managerAddress w) + 2 * ?cp =
       balances (usdtToken w) (managerAddress w)"
    using funds addr by simp
  from first second facts show ?thesis by blast
qed

lemma demo_small_fields:
  "roles_pm (manager demo_small) FINANCE_ROLE 1"
  "timestamp (pledgeAgreements (manager demo_small) ''AG-2'') = 1700000100"
  "status (pledgeAgreements (manager demo_small) ''AG-2'') = ACTIVE"
  "clientPayment (pledgeAgreements (manager demo_small) ''AG-2'') = 595"
  "client (pledgeAgreements (manager demo_small) ''AG-2'') = 4"
  "balances (usdtToken demo_small) 2 = 500000 * 10 ^ 6"
  "balances (usdtToken demo_small) 4 = 0"
  "managerAddress demo_small = 2"
  "totalClientPayments (manager demo_small) = 0"
  by (simp_all add: demo_small_def demo_world_eval)

theorem payClient_twice_witness:
  "roles_pm (manager demo_small) FINANCE_ROLE 1 \<and>
   timestamp (pledgeAgreements (manager demo_small) ''AG-2'') \<noteq> 0 \<and>
   status (pledgeAgreements (manager demo_small) ''AG-2'') = ACTIVE \<and>
   clientPayment (pledgeAgreements (manager demo_small) ''AG-2'') = 595 \<and>
   balances (usdtToken demo_small) (managerAddress demo_small) = 500000 * 10 ^ 6 \<and>
   payClient demo_small 1 ''AG-2'' = Inr demo_paid_once \<and>
   payClient demo_paid_once 1 ''AG-2'' = Inr demo_paid_twice \<and>
   status (pledgeAgreements (manager demo_paid_twice) ''AG-2'') = ACTIVE \<and>
   totalClientPayments (manager demo_paid_twice) = 1190 \<and>
   balances (usdtToken demo_paid_twice) 4 = 1190"
proof -
  have r: "roles_pm (manager demo_small) FINANCE_ROLE 1"
    by (rule demo_small_fields(1))
  have found: "timestamp (pledgeAgreements (manager demo_small) ''AG-2'') \<noteq> 0"
    and active: "status (pledgeAgreements (manager demo_small) ''AG-2'') = ACTIVE"
    and funds: "2 * clientPayment (pledgeAgreements (manager demo_small) ''AG-2'')
                  \<le> balances (usdtToken demo_small) (managerAddress demo_small)"
    and a1: "managerAddress demo_small \<noteq> 0"
    and a2: "client (pledgeAgreements (manager demo_small) ''AG-2'') \<noteq> 0"
    and a3: "client (pledgeAgreements (manager demo_small) ''AG-2'') \<noteq> managerAddress demo_small"
    and room: "balances (usdtToken demo_small)
                 (client (pledgeAgreements (manager demo_small) ''AG-2'')) +
               2 * clientPayment (pledgeAgreements (manager demo_small) ''AG-2'') \<le> max_uint256"
    and acc: "totalClientPayments (manager demo_small) +
               2 * clientPayment (pledgeAgreements (manager demo_small) ''AG-2'') \<le> max_uint256"
    by (simp_all add: demo_small_fields max_uint256_def)
  from payClient_twice [OF r r found active funds a1 a2 a3 room acc]
  have "\<exists>w1 w2.
     payClient demo_small 1 ''AG-2'' = Inr w1 \<and> payClient w1 1 ''AG-2'' = Inr w2 \<and>
     pledgeAgreements (manager w2) = pledgeAgreements (manager demo_small) \<and>
     totalClientPayments (manager w2) = 1190 \<and>
     balances (usdtToken w2) 4 = 1190"
    by (simp add: demo_small_fields) blast
  then obtain w1 w2 where 1: "payClient demo_small 1 ''AG-2'' = Inr w1"
    and 2: "payClient w1 1 ''AG-2'' = Inr w2"
    and 3: "pledgeAgreements (manager w2) = pledgeAgreements (manager demo_small)"
      "totalClientPayments (manager w2) = 1190" "balances (usdtToken w2) 4 = 1190"
    by blast
  from 1 have w1: "demo_paid_once = w1" by (simp add: demo_paid_once_def manager_after_def)
  from 2 w1 have w2: "demo_paid_twice = w2" by (simp add: demo_paid_twice_def manager_after_def)
  show ?thesis
    using 1 2 3 r by (simp add: w1 w2 demo_small_fields)
qed

end
